theory Spec2Isabelle
  imports Main "HOL-Library.Word" "HOL-Library.AList" "HOL-Library.Multiset"
begin

section \<open>Severity levels\<close>

text \<open>
  The host framework's level type is a Go \<open>int\<close> with seven named constants (iota from
  \<open>LevelTrace\<close>); the engine's level type is an \<open>int8\<close> with \<open>TraceLevel = -1\<close> and
  \<open>DebugLevel = 0\<close> upwards. No arithmetic is done on either: they are only compared, so both
  are integers here. Values outside the named constants exist in Go and are kept.
\<close>

type_synonym Level = int

definition LevelTrace :: Level where "LevelTrace = 0"
definition LevelDebug :: Level where "LevelDebug = 1"
definition LevelInfo :: Level where "LevelInfo = 2"
definition LevelNotice :: Level where "LevelNotice = 3"
definition LevelWarn :: Level where "LevelWarn = 4"
definition LevelError :: Level where "LevelError = 5"
definition LevelFatal :: Level where "LevelFatal = 6"

definition hertz_levels :: "Level list" where
  "hertz_levels =
     [LevelTrace, LevelDebug, LevelInfo, LevelNotice, LevelWarn, LevelError, LevelFatal]"

type_synonym zLevel = int

definition DebugLevel :: zLevel where "DebugLevel = 0"
definition InfoLevel :: zLevel where "InfoLevel = 1"
definition WarnLevel :: zLevel where "WarnLevel = 2"
definition ErrorLevel :: zLevel where "ErrorLevel = 3"
definition FatalLevel :: zLevel where "FatalLevel = 4"
definition PanicLevel :: zLevel where "PanicLevel = 5"
definition NoLevel :: zLevel where "NoLevel = 6"
definition Disabled :: zLevel where "Disabled = 7"
definition TraceLevel :: zLevel where "TraceLevel = - 1"

definition toZerologLevel :: "Level \<Rightarrow> zLevel" where
  "toZerologLevel level =
     (if level = LevelTrace then TraceLevel
      else if level = LevelDebug then DebugLevel
      else if level = LevelInfo then InfoLevel
      else if level = LevelNotice \<or> level = LevelWarn then WarnLevel
      else if level = LevelError then ErrorLevel
      else if level = LevelFatal then FatalLevel
      else InfoLevel)"

definition fromZerologLevel :: "zLevel \<Rightarrow> Level" where
  "fromZerologLevel level =
     (if level = TraceLevel then LevelTrace
      else if level = DebugLevel then LevelDebug
      else if level = InfoLevel then LevelInfo
      else if level = WarnLevel then LevelNotice
      else if level = ErrorLevel then LevelError
      else if level = FatalLevel then LevelFatal
      else LevelInfo)"

section \<open>Destinations and the world they live in\<close>

record RotateConfig =
  Filename :: string
  MaxSize :: int
  MaxBackups :: int
  MaxAge :: int
  Compress :: bool
  LocalTime :: bool

text \<open>
  An \<open>io.Writer\<close> is standard output, the rotating file writer built from a rotation
  configuration, or any other writer (a buffer, a file), told apart by a number.
\<close>

datatype Writer = Stdout | Buffer nat | Lumberjack RotateConfig

datatype TimeFormat = RFC3339 | DateTime

text \<open>
  What the engine is constructed on: the destination itself, which receives machine-readable
  lines, or a console writer around it, which renders each line human-readable with the
  given time format (the level column is the upper-cased level name padded to six
  characters in every construction of the source).
\<close>

datatype LevelWriter = Raw Writer | ConsoleWriter Writer TimeFormat

fun Out :: "LevelWriter \<Rightarrow> Writer" where
  "Out (Raw w) = w"
| "Out (ConsoleWriter w tf) = w"

datatype Shape = JSONLine | ConsoleLine TimeFormat

fun shape :: "LevelWriter \<Rightarrow> Shape" where
  "shape (Raw w) = JSONLine"
| "shape (ConsoleWriter w tf) = ConsoleLine tf"

text \<open>
  A frame of the call stack: the function that is running and the line of the call it is
  making, or a frame inside the engine. A call stack is a list of frames, the innermost
  first.
\<close>

datatype frame = At string nat | InEngine

text \<open>
  One written line: its wire shape, the engine level it was written at, the message, the
  caller location when the logger stamps one, and the attached key/value fields. The order
  of the fields on the line is not kept: they are a multiset. The time stamp depends on the
  clock and is left out.
\<close>

record LogLine =
  ln_shape :: Shape
  ln_level :: zLevel
  ln_message :: string
  ln_caller :: "frame option"
  ln_fields :: "(string \<times> string) multiset"

datatype Code = Unset | CodeError | Ok

record SpanContext =
  sc_traceID :: "8 word list"
  sc_spanID :: "8 word list"
  sc_traceFlags :: "8 word"

text \<open>
  A span handle of the tracing collaborator: its immutable span context, the events it has
  been sent through \<open>AddEvent\<close> (name and attributes) and the last status it has been sent
  through \<open>SetStatus\<close>.
\<close>

record Span =
  span_context :: SpanContext
  span_events :: "(string \<times> (string \<times> string) list) list"
  span_status :: "Code \<times> string"

datatype error = WriteError Writer | RotateError string | NotLumberjack | NilDereference

text \<open>
  Everything a call can change outside the logger value: what each destination has
  received, which destinations are unwritable, the backups made for each file name, and the
  spans, by reference.
\<close>

record world =
  written :: "Writer \<Rightarrow> LogLine list"
  unwritable :: "Writer \<Rightarrow> bool"
  backups :: "string \<Rightarrow> LogLine list list"
  spans :: "nat \<Rightarrow> Span"

text \<open>
  The destination contract: write, and return an error when the destination cannot be
  written. Rotation triggered by size inside the rotating writer is not part of this model.
\<close>

definition Write :: "Writer \<Rightarrow> LogLine \<Rightarrow> world \<Rightarrow> error + world" where
  "Write d ln w =
     (if unwritable w d then Inl (WriteError d)
      else Inr (w\<lparr>written := (written w)(d := written w d @ [ln])\<rparr>))"

text \<open>
  Modelled from the spec: the rotating file writer's \<open>Rotate\<close> belongs to an external
  library. It closes the live file, renames it to a backup and reopens an empty file at the
  original name, and signals failure as an explicit error, leaving everything as it was.
\<close>

definition lumberjack_Rotate :: "RotateConfig \<Rightarrow> world \<Rightarrow> error option \<times> world" where
  "lumberjack_Rotate c w =
     (if unwritable w (Lumberjack c) then (Some (RotateError (Filename c)), w)
      else (None, w\<lparr>written := (written w)(Lumberjack c := []),
                     backups := (backups w)(Filename c :=
                        backups w (Filename c) @ [written w (Lumberjack c)])\<rparr>))"

section \<open>The structured event engine\<close>

text \<open>
  Modelled from the spec: the engine is an external library (zerolog). A logger of the
  engine has a writer, a minimum level, the fields every line of it carries, and the
  context that stamps the time and the caller (with a number of skipped frames) on each
  line. An event is started at a level and is the nil event when that level is below the
  logger's minimum; fields are appended to a live event and ignored by the nil event; the
  message call writes the line and swallows a write error. Beyond the spec, as the library
  documents its Fatal entry point: the message call of a Fatal event ends the process
  (\<open>os.Exit(1)\<close>) once the line is written, and a disabled Fatal event has ended it when
  the entry point returns; and its caller stamp: with the skip count 2 the line names the
  frame that makes the message call, with each further count the frame one further out,
  and with a smaller count a frame of the engine. The library's global level is at its
  default, which filters nothing, and is left out.
\<close>

record zerolog_Logger =
  zw :: LevelWriter
  zlevel :: zLevel
  zcontext :: "(string \<times> string) list"
  ztimestamp :: bool
  zcaller :: "int option"

definition zerolog_New :: "LevelWriter \<Rightarrow> zerolog_Logger" where
  "zerolog_New lw =
     \<lparr>zw = lw, zlevel = TraceLevel, zcontext = [], ztimestamp = False, zcaller = None\<rparr>"

definition zerolog_Level :: "zLevel \<Rightarrow> zerolog_Logger \<Rightarrow> zerolog_Logger" where
  "zerolog_Level lvl l = l\<lparr>zlevel := lvl\<rparr>"

definition Timestamp :: "zerolog_Logger \<Rightarrow> zerolog_Logger" where
  "Timestamp l = l\<lparr>ztimestamp := True\<rparr>"

definition CallerWithSkipFrameCount :: "int \<Rightarrow> zerolog_Logger \<Rightarrow> zerolog_Logger" where
  "CallerWithSkipFrameCount n l = l\<lparr>zcaller := Some n\<rparr>"

record Event =
  ev_w :: LevelWriter
  ev_level :: zLevel
  ev_fields :: "(string \<times> string) multiset"
  ev_caller :: "int option"
  ev_exit :: bool

definition should :: "zerolog_Logger \<Rightarrow> zLevel \<Rightarrow> bool" where
  "should l lvl = (if lvl < zlevel l then False else True)"

definition newEvent :: "zerolog_Logger \<Rightarrow> zLevel \<Rightarrow> bool \<Rightarrow> Event option" where
  "newEvent l lvl done =
     (if should l lvl
      then Some \<lparr>ev_w = zw l, ev_level = lvl, ev_fields = mset (zcontext l),
                 ev_caller = zcaller l, ev_exit = done\<rparr>
      else None)"

definition zerolog_Trace :: "zerolog_Logger \<Rightarrow> Event option" where
  "zerolog_Trace l = newEvent l TraceLevel False"

definition zerolog_Debug :: "zerolog_Logger \<Rightarrow> Event option" where
  "zerolog_Debug l = newEvent l DebugLevel False"

definition zerolog_Info :: "zerolog_Logger \<Rightarrow> Event option" where
  "zerolog_Info l = newEvent l InfoLevel False"

definition zerolog_Warn :: "zerolog_Logger \<Rightarrow> Event option" where
  "zerolog_Warn l = newEvent l WarnLevel False"

definition zerolog_Error :: "zerolog_Logger \<Rightarrow> Event option" where
  "zerolog_Error l = newEvent l ErrorLevel False"

definition zerolog_Fatal :: "zerolog_Logger \<Rightarrow> Event option" where
  "zerolog_Fatal l = newEvent l FatalLevel True"

definition Str :: "string \<Rightarrow> string \<Rightarrow> Event option \<Rightarrow> Event option" where
  "Str k v e =
     (case e of None \<Rightarrow> None
      | Some ev \<Rightarrow> Some (ev\<lparr>ev_fields := add_mset (k, v) (ev_fields ev)\<rparr>))"

text \<open>
  How a call ends: it returns to the caller, the process has exited inside it, or it
  panics (Go's run-time error, here for a method called on a nil interface value).
\<close>

datatype outcome = Returns world | Exits world | Panics error world

fun final :: "outcome \<Rightarrow> world" where
  "final (Returns w) = w"
| "final (Exits w) = w"
| "final (Panics e w) = w"

fun andThen :: "outcome \<Rightarrow> (world \<Rightarrow> outcome) \<Rightarrow> outcome" where
  "andThen (Returns w) f = f w"
| "andThen (Exits w) f = Exits w"
| "andThen (Panics e w) f = Panics e w"

text \<open>The caller stamp, for a skip count and the stack at the message call.\<close>

definition caller :: "int option \<Rightarrow> frame list \<Rightarrow> frame option" where
  "caller skip stk =
     (case skip of None \<Rightarrow> None
      | Some n \<Rightarrow>
          if n < 2 then Some InEngine
          else if nat (n - 2) < length stk then Some (stk ! nat (n - 2))
          else None)"

definition line_of :: "Event \<Rightarrow> string \<Rightarrow> frame list \<Rightarrow> LogLine" where
  "line_of ev msg stk =
     \<lparr>ln_shape = shape (ev_w ev), ln_level = ev_level ev, ln_message = msg,
      ln_caller = caller (ev_caller ev) stk, ln_fields = ev_fields ev\<rparr>"

text \<open>
  The message call, made by the frame at the head of the given stack. \<open>Msgf\<close> is the same
  call on the formatted message.
\<close>

definition Msg :: "Event option \<Rightarrow> string \<Rightarrow> frame list \<Rightarrow> world \<Rightarrow> outcome" where
  "Msg e msg stk w =
     (case e of None \<Rightarrow> Returns w
      | Some ev \<Rightarrow>
          (let w' = (case Write (Out (ev_w ev)) (line_of ev msg stk) w of
                       Inl err \<Rightarrow> w
                     | Inr w'' \<Rightarrow> w'')
           in if ev_exit ev then Exits w' else Returns w'))"

section \<open>Contexts and spans\<close>

text \<open>
  A value held in an \<open>interface{}\<close> is represented by what the \<open>%v\<close> verb prints for it (a
  string is printed as itself), so \<open>fmt.Sprintf("%v", v)\<close> is the identity on it. In the
  same way the arguments of a log call (\<open>v ...interface{}\<close>, or a format and its operands)
  are represented by the message \<open>fmt.Sprint\<close> or \<open>fmt.Sprintf\<close> makes of them.
\<close>

type_synonym iface = string

record Context =
  ctx_values :: "string \<rightharpoonup> iface"
  ctx_span :: "nat option"

text \<open>
  \<open>ctx.Value(key)\<close>: a method call on an interface value, which panics when the interface is
  nil. A key that is not set gives nil, here \<open>None\<close>.
\<close>

definition ctx_Value :: "Context option \<Rightarrow> string \<Rightarrow> error + iface option" where
  "ctx_Value ctx key =
     (case ctx of None \<Rightarrow> Inl NilDereference
      | Some c \<Rightarrow> Inr (ctx_values c key))"

text \<open>
  Modelled from the spec: the span source is an external library (OpenTelemetry). Given a
  context it returns a span handle, which reports its span context and accepts events and
  a status. As the library has it: a nil context and a context without a span give the
  no-op span (here \<open>None\<close>), whose span context is all zero and which ignores events and
  status; a span context is valid when both its trace id and its span id have a non-zero
  byte; the ids print as lowercase hexadecimal, two characters a byte.
\<close>

definition SpanFromContext :: "Context option \<Rightarrow> nat option" where
  "SpanFromContext ctx =
     (case ctx of None \<Rightarrow> None
      | Some c \<Rightarrow> ctx_span c)"

definition span_SpanContext :: "nat option \<Rightarrow> world \<Rightarrow> SpanContext" where
  "span_SpanContext span w =
     (case span of
        None \<Rightarrow> \<lparr>sc_traceID = replicate 16 0, sc_spanID = replicate 8 0, sc_traceFlags = 0\<rparr>
      | Some r \<Rightarrow> span_context (spans w r))"

definition ID_IsValid :: "8 word list \<Rightarrow> bool" where
  "ID_IsValid bs = list_ex (\<lambda>b. b \<noteq> 0) bs"

definition IsValid :: "SpanContext \<Rightarrow> bool" where
  "IsValid sc = (ID_IsValid (sc_traceID sc) \<and> ID_IsValid (sc_spanID sc))"

definition hexdigit :: "nat \<Rightarrow> char" where
  "hexdigit n = ''0123456789abcdef'' ! n"

text \<open>\<open>fmt.Sprintf("%02x", b)\<close> for a byte \<open>b\<close>.\<close>

definition hex_byte :: "8 word \<Rightarrow> string" where
  "hex_byte b = [hexdigit (unat b div 16), hexdigit (unat b mod 16)]"

definition ID_String :: "8 word list \<Rightarrow> string" where
  "ID_String bs = concat (map hex_byte bs)"

definition AddEvent ::
  "nat option \<Rightarrow> string \<Rightarrow> (string \<times> string) list \<Rightarrow> world \<Rightarrow> world" where
  "AddEvent span name attrs w =
     (case span of None \<Rightarrow> w
      | Some r \<Rightarrow>
          w\<lparr>spans := (spans w)(r := (spans w r)
               \<lparr>span_events := span_events (spans w r) @ [(name, attrs)]\<rparr>)\<rparr>)"

definition SetStatus :: "nat option \<Rightarrow> Code \<Rightarrow> string \<Rightarrow> world \<Rightarrow> world" where
  "SetStatus span code description w =
     (case span of None \<Rightarrow> w
      | Some r \<Rightarrow>
          w\<lparr>spans := (spans w)(r := (spans w r)\<lparr>span_status := (code, description)\<rparr>)\<rparr>)"

section \<open>The facade: ZLogger\<close>

definition LogIDKey :: string where "LogIDKey = ''request_id''"
definition ReqIDKey :: string where "ReqIDKey = ''X-Request-ID''"

type_synonym FormatType = int

definition ConsoleFormat :: FormatType where "ConsoleFormat = 0"
definition JSONFormat :: FormatType where "JSONFormat = 1"

datatype TracerProvider = NoopTracerProvider | Provider nat

record ZLogger =
  zl_logger :: zerolog_Logger
  zl_level :: Level
  zl_tp :: TracerProvider
  zl_format :: FormatType

record config =
  cfg_output :: Writer
  cfg_level :: Level
  cfg_tp :: TracerProvider
  cfg_format :: FormatType
  cfg_loggerEnrichers :: "(zerolog_Logger \<Rightarrow> zerolog_Logger) list"

type_synonym Option = "config \<Rightarrow> config"

definition WithOutput :: "Writer \<Rightarrow> Option" where
  "WithOutput output = (\<lambda>c. c\<lparr>cfg_output := output\<rparr>)"

definition WithLevel :: "Level \<Rightarrow> Option" where
  "WithLevel level = (\<lambda>c. c\<lparr>cfg_level := level\<rparr>)"

definition WithTraceProvider :: "TracerProvider option \<Rightarrow> Option" where
  "WithTraceProvider tp =
     (\<lambda>c. case tp of Some p \<Rightarrow> c\<lparr>cfg_tp := p\<rparr>
          | None \<Rightarrow> c\<lparr>cfg_tp := NoopTracerProvider\<rparr>)"

definition WithFormat :: "FormatType \<Rightarrow> Option" where
  "WithFormat format = (\<lambda>c. c\<lparr>cfg_format := format\<rparr>)"

definition WithZerologOptions :: "(zerolog_Logger \<Rightarrow> zerolog_Logger) list \<Rightarrow> Option" where
  "WithZerologOptions enrichers =
     (\<lambda>c. c\<lparr>cfg_loggerEnrichers := cfg_loggerEnrichers c @ enrichers\<rparr>)"

definition default_config :: config where
  "default_config =
     \<lparr>cfg_output = Stdout, cfg_level = LevelInfo, cfg_tp = NoopTracerProvider,
      cfg_format = ConsoleFormat, cfg_loggerEnrichers = []\<rparr>"

text \<open>The engine logger both \<open>New\<close> and \<open>SetOutput\<close> build on a writer, for a level.\<close>

definition build :: "LevelWriter \<Rightarrow> Level \<Rightarrow> zerolog_Logger" where
  "build lw level =
     CallerWithSkipFrameCount 3 (Timestamp (zerolog_Level (toZerologLevel level) (zerolog_New lw)))"

definition New :: "Option list \<Rightarrow> ZLogger" where
  "New options =
     (let cfg = fold (\<lambda>opt c. opt c) options default_config;
          zlogger =
            (if cfg_format cfg = JSONFormat then build (Raw (cfg_output cfg)) (cfg_level cfg)
             else if cfg_format cfg = ConsoleFormat
               then build (ConsoleWriter (cfg_output cfg) RFC3339) (cfg_level cfg)
             else build (ConsoleWriter (cfg_output cfg) RFC3339) (cfg_level cfg));
          zlogger = fold (\<lambda>enricher z. enricher z) (cfg_loggerEnrichers cfg) zlogger
      in \<lparr>zl_logger = zlogger, zl_level = cfg_level cfg, zl_tp = cfg_tp cfg,
          zl_format = cfg_format cfg\<rparr>)"

definition SetLevel :: "Level \<Rightarrow> ZLogger \<Rightarrow> ZLogger" where
  "SetLevel level zl =
     zl\<lparr>zl_level := level, zl_logger := zerolog_Level (toZerologLevel level) (zl_logger zl)\<rparr>"

definition SetOutput :: "Writer \<Rightarrow> ZLogger \<Rightarrow> ZLogger" where
  "SetOutput w zl =
     (if zl_format zl = JSONFormat then zl\<lparr>zl_logger := build (Raw w) (zl_level zl)\<rparr>
      else if zl_format zl = ConsoleFormat
        then zl\<lparr>zl_logger := build (ConsoleWriter w DateTime) (zl_level zl)\<rparr>
      else zl\<lparr>zl_logger := build (ConsoleWriter w RFC3339) (zl_level zl)\<rparr>)"

text \<open>
  The extractor. The Go map it returns is an association list with distinct keys, the nil
  map is \<open>None\<close>. The order of the list is of no consequence: the map is read by \<open>range\<close>
  only, whose order Go does not fix, to append the fields to an event, and the fields of
  an event are a multiset.
\<close>

definition getOtelFields ::
  "Context option \<Rightarrow> world \<Rightarrow> error + (string \<times> iface) list option" where
  "getOtelFields ctx w =
     (if ctx = None then Inr None
      else
        (case ctx_Value ctx ReqIDKey of
           Inl e \<Rightarrow> Inl e
         | Inr reqID \<Rightarrow>
             (let fields = [];
                  fields = (case reqID of None \<Rightarrow> fields
                            | Some v \<Rightarrow> AList.update LogIDKey v fields);
                  span = SpanFromContext ctx;
                  fields =
                    (if IsValid (span_SpanContext span w) then
                       (let traceID = sc_traceID (span_SpanContext span w);
                            spanID = sc_spanID (span_SpanContext span w);
                            fields = (if ID_IsValid traceID
                                      then AList.update ''trace_id'' (ID_String traceID) fields
                                      else fields);
                            fields = (if ID_IsValid spanID
                                      then AList.update ''span_id'' (ID_String spanID) fields
                                      else fields);
                            traceFlags = sc_traceFlags (span_SpanContext span w)
                        in if traceFlags \<noteq> 0
                           then AList.update ''trace_flags'' (hex_byte traceFlags) fields
                           else fields)
                     else fields)
              in Inr (Some fields))))"

text \<open>\<open>for k, v := range fields { logEvt = logEvt.Str(k, fmt.Sprintf("%v", v)) }\<close>\<close>

definition range_Str :: "(string \<times> iface) list option \<Rightarrow> Event option \<Rightarrow> Event option" where
  "range_Str m logEvt =
     (case m of None \<Rightarrow> logEvt
      | Some kvs \<Rightarrow> fold (\<lambda>(k, v) e. Str k v e) kvs logEvt)"

subsection \<open>Plain and formatted calls\<close>

text \<open>
  Each method takes the call stack of its caller, whose head is the frame that calls the
  method, and makes the message call from its own frame on top of it: the name of the
  method and the line of the message call in the source.
\<close>

definition Trace :: "string \<Rightarrow> ZLogger \<Rightarrow> frame list \<Rightarrow> world \<Rightarrow> outcome" where
  "Trace msg zl stk w =
     Msg (zerolog_Trace (zl_logger zl)) msg (At ''ZLogger.Trace'' 250 # stk) w"

definition Debug :: "string \<Rightarrow> ZLogger \<Rightarrow> frame list \<Rightarrow> world \<Rightarrow> outcome" where
  "Debug msg zl stk w =
     Msg (zerolog_Debug (zl_logger zl)) msg (At ''ZLogger.Debug'' 254 # stk) w"

definition Info :: "string \<Rightarrow> ZLogger \<Rightarrow> frame list \<Rightarrow> world \<Rightarrow> outcome" where
  "Info msg zl stk w =
     Msg (zerolog_Info (zl_logger zl)) msg (At ''ZLogger.Info'' 258 # stk) w"

definition Notice :: "string \<Rightarrow> ZLogger \<Rightarrow> frame list \<Rightarrow> world \<Rightarrow> outcome" where
  "Notice msg zl stk w =
     Msg (zerolog_Warn (zl_logger zl)) msg (At ''ZLogger.Notice'' 262 # stk) w"

definition Warn :: "string \<Rightarrow> ZLogger \<Rightarrow> frame list \<Rightarrow> world \<Rightarrow> outcome" where
  "Warn msg zl stk w =
     Msg (zerolog_Warn (zl_logger zl)) msg (At ''ZLogger.Warn'' 266 # stk) w"

definition Error :: "string \<Rightarrow> ZLogger \<Rightarrow> frame list \<Rightarrow> world \<Rightarrow> outcome" where
  "Error msg zl stk w =
     Msg (zerolog_Error (zl_logger zl)) msg (At ''ZLogger.Error'' 270 # stk) w"

text \<open>A disabled Fatal event has already ended the process when the entry point returns.\<close>

definition Fatal :: "string \<Rightarrow> ZLogger \<Rightarrow> frame list \<Rightarrow> world \<Rightarrow> outcome" where
  "Fatal msg zl stk w =
     (case zerolog_Fatal (zl_logger zl) of None \<Rightarrow> Exits w
      | Some ev \<Rightarrow> Msg (Some ev) msg (At ''ZLogger.Fatal'' 274 # stk) w)"

definition Tracef :: "string \<Rightarrow> ZLogger \<Rightarrow> frame list \<Rightarrow> world \<Rightarrow> outcome" where
  "Tracef msg zl stk w =
     Msg (zerolog_Trace (zl_logger zl)) msg (At ''ZLogger.Tracef'' 279 # stk) w"

definition Debugf :: "string \<Rightarrow> ZLogger \<Rightarrow> frame list \<Rightarrow> world \<Rightarrow> outcome" where
  "Debugf msg zl stk w =
     Msg (zerolog_Debug (zl_logger zl)) msg (At ''ZLogger.Debugf'' 283 # stk) w"

definition Infof :: "string \<Rightarrow> ZLogger \<Rightarrow> frame list \<Rightarrow> world \<Rightarrow> outcome" where
  "Infof msg zl stk w =
     Msg (zerolog_Info (zl_logger zl)) msg (At ''ZLogger.Infof'' 287 # stk) w"

definition Noticef :: "string \<Rightarrow> ZLogger \<Rightarrow> frame list \<Rightarrow> world \<Rightarrow> outcome" where
  "Noticef msg zl stk w =
     Msg (zerolog_Warn (zl_logger zl)) msg (At ''ZLogger.Noticef'' 291 # stk) w"

definition Warnf :: "string \<Rightarrow> ZLogger \<Rightarrow> frame list \<Rightarrow> world \<Rightarrow> outcome" where
  "Warnf msg zl stk w =
     Msg (zerolog_Warn (zl_logger zl)) msg (At ''ZLogger.Warnf'' 295 # stk) w"

definition Errorf :: "string \<Rightarrow> ZLogger \<Rightarrow> frame list \<Rightarrow> world \<Rightarrow> outcome" where
  "Errorf msg zl stk w =
     Msg (zerolog_Error (zl_logger zl)) msg (At ''ZLogger.Errorf'' 299 # stk) w"

definition Fatalf :: "string \<Rightarrow> ZLogger \<Rightarrow> frame list \<Rightarrow> world \<Rightarrow> outcome" where
  "Fatalf msg zl stk w =
     (case zerolog_Fatal (zl_logger zl) of None \<Rightarrow> Exits w
      | Some ev \<Rightarrow> Msg (Some ev) msg (At ''ZLogger.Fatalf'' 303 # stk) w)"

subsection \<open>Context-aware calls\<close>

definition CtxTracef ::
  "Context option \<Rightarrow> string \<Rightarrow> ZLogger \<Rightarrow> frame list \<Rightarrow> world \<Rightarrow> outcome" where
  "CtxTracef ctx msg zl stk w =
     (case getOtelFields ctx w of
        Inl e \<Rightarrow> Panics e w
      | Inr flds \<Rightarrow>
          (let logEvt = zerolog_Trace (zl_logger zl);
               logEvt = range_Str flds logEvt
           in andThen (Msg logEvt msg (At ''ZLogger.CtxTracef'' 317 # stk) w)
                (\<lambda>w. let span = SpanFromContext ctx
                     in if IsValid (span_SpanContext span w)
                        then Returns (AddEvent span ''log''
                                        [(''message'', msg), (''level'', ''trace'')] w)
                        else Returns w)))"

definition CtxDebugf ::
  "Context option \<Rightarrow> string \<Rightarrow> ZLogger \<Rightarrow> frame list \<Rightarrow> world \<Rightarrow> outcome" where
  "CtxDebugf ctx msg zl stk w =
     (case getOtelFields ctx w of
        Inl e \<Rightarrow> Panics e w
      | Inr flds \<Rightarrow>
          (let logEvt = zerolog_Debug (zl_logger zl);
               logEvt = range_Str flds logEvt
           in andThen (Msg logEvt msg (At ''ZLogger.CtxDebugf'' 339 # stk) w)
                (\<lambda>w. let span = SpanFromContext ctx
                     in if IsValid (span_SpanContext span w)
                        then Returns (AddEvent span ''log''
                                        [(''message'', msg), (''level'', ''debug'')] w)
                        else Returns w)))"

definition CtxInfof ::
  "Context option \<Rightarrow> string \<Rightarrow> ZLogger \<Rightarrow> frame list \<Rightarrow> world \<Rightarrow> outcome" where
  "CtxInfof ctx msg zl stk w =
     (case getOtelFields ctx w of
        Inl e \<Rightarrow> Panics e w
      | Inr flds \<Rightarrow>
          (let logEvt = zerolog_Info (zl_logger zl);
               logEvt = range_Str flds logEvt
           in andThen (Msg logEvt msg (At ''ZLogger.CtxInfof'' 361 # stk) w)
                (\<lambda>w. let span = SpanFromContext ctx
                     in if IsValid (span_SpanContext span w)
                        then Returns (AddEvent span ''log''
                                        [(''message'', msg), (''level'', ''info'')] w)
                        else Returns w)))"

definition CtxNoticef ::
  "Context option \<Rightarrow> string \<Rightarrow> ZLogger \<Rightarrow> frame list \<Rightarrow> world \<Rightarrow> outcome" where
  "CtxNoticef ctx msg zl stk w =
     (case getOtelFields ctx w of
        Inl e \<Rightarrow> Panics e w
      | Inr flds \<Rightarrow>
          (let logEvt = zerolog_Warn (zl_logger zl);
               logEvt = range_Str flds logEvt
           in andThen (Msg logEvt msg (At ''ZLogger.CtxNoticef'' 383 # stk) w)
                (\<lambda>w. let span = SpanFromContext ctx
                     in if IsValid (span_SpanContext span w)
                        then Returns (AddEvent span ''log''
                                        [(''message'', msg), (''level'', ''notice'')] w)
                        else Returns w)))"

definition CtxWarnf ::
  "Context option \<Rightarrow> string \<Rightarrow> ZLogger \<Rightarrow> frame list \<Rightarrow> world \<Rightarrow> outcome" where
  "CtxWarnf ctx msg zl stk w =
     (case getOtelFields ctx w of
        Inl e \<Rightarrow> Panics e w
      | Inr flds \<Rightarrow>
          (let logEvt = zerolog_Warn (zl_logger zl);
               logEvt = range_Str flds logEvt
           in andThen (Msg logEvt msg (At ''ZLogger.CtxWarnf'' 405 # stk) w)
                (\<lambda>w. let span = SpanFromContext ctx
                     in if IsValid (span_SpanContext span w)
                        then Returns (AddEvent span ''log''
                                        [(''message'', msg), (''level'', ''warn'')] w)
                        else Returns w)))"

definition CtxErrorf ::
  "Context option \<Rightarrow> string \<Rightarrow> ZLogger \<Rightarrow> frame list \<Rightarrow> world \<Rightarrow> outcome" where
  "CtxErrorf ctx msg zl stk w =
     (case getOtelFields ctx w of
        Inl e \<Rightarrow> Panics e w
      | Inr flds \<Rightarrow>
          (let logEvt = zerolog_Error (zl_logger zl);
               logEvt = range_Str flds logEvt
           in andThen (Msg logEvt msg (At ''ZLogger.CtxErrorf'' 428 # stk) w)
                (\<lambda>w. let span = SpanFromContext ctx
                     in if IsValid (span_SpanContext span w)
                        then Returns (SetStatus span CodeError msg (AddEvent span ''log''
                                        [(''message'', msg), (''level'', ''error'')] w))
                        else Returns w)))"

definition CtxFatalf ::
  "Context option \<Rightarrow> string \<Rightarrow> ZLogger \<Rightarrow> frame list \<Rightarrow> world \<Rightarrow> outcome" where
  "CtxFatalf ctx msg zl stk w =
     (case getOtelFields ctx w of
        Inl e \<Rightarrow> Panics e w
      | Inr flds \<Rightarrow>
          (case zerolog_Fatal (zl_logger zl) of
             None \<Rightarrow> Exits w
           | Some ev \<Rightarrow>
               (let logEvt = range_Str flds (Some ev)
                in andThen (Msg logEvt msg (At ''ZLogger.CtxFatalf'' 454 # stk) w)
                     (\<lambda>w. let span = SpanFromContext ctx
                          in if IsValid (span_SpanContext span w)
                             then Returns (SetStatus span CodeError msg (AddEvent span ''log''
                                             [(''message'', msg), (''level'', ''fatal'')] w))
                             else Returns w))))"

section \<open>The rotating logger\<close>

record RotatingLogger =
  rl_baseLogger :: ZLogger
  rl_writer :: Writer
  rl_config :: RotateConfig

definition NewRotatingLogger :: "RotateConfig \<Rightarrow> RotatingLogger" where
  "NewRotatingLogger c =
     (let lumberjackLogger = Lumberjack c;
          zLogger = New [WithOutput lumberjackLogger, WithFormat ConsoleFormat]
      in \<lparr>rl_baseLogger = zLogger, rl_writer = lumberjackLogger, rl_config = c\<rparr>)"

definition NewRotatingLoggerWithFormat :: "RotateConfig \<Rightarrow> FormatType \<Rightarrow> RotatingLogger" where
  "NewRotatingLoggerWithFormat c format =
     (let lumberjackLogger = Lumberjack c;
          zLogger = New [WithOutput lumberjackLogger, WithFormat format]
      in \<lparr>rl_baseLogger = zLogger, rl_writer = lumberjackLogger, rl_config = c\<rparr>)"

definition WithRotation :: "RotateConfig \<Rightarrow> Option" where
  "WithRotation c = WithOutput (Lumberjack c)"

definition WithRotationAndFormat :: "RotateConfig \<Rightarrow> FormatType \<Rightarrow> Option" where
  "WithRotationAndFormat rotationConfig format =
     (\<lambda>c. c\<lparr>cfg_output := Lumberjack rotationConfig, cfg_format := format\<rparr>)"

definition GetDefaultRotateConfig ::
  "string \<Rightarrow> (RotateConfig \<Rightarrow> RotateConfig) list \<Rightarrow> RotateConfig" where
  "GetDefaultRotateConfig filename opts =
     fold (\<lambda>opt c. opt c) opts
       \<lparr>Filename = filename, MaxSize = 20, MaxBackups = 5, MaxAge = 10, Compress = True,
        LocalTime = True\<rparr>"

definition Rotate :: "RotatingLogger \<Rightarrow> world \<Rightarrow> error option \<times> world" where
  "Rotate rl w =
     (case rl_writer rl of
        Lumberjack lj \<Rightarrow> lumberjack_Rotate lj w
      | _ \<Rightarrow> (Some NotLumberjack, w))"

definition RotatingLogger_SetLevel :: "Level \<Rightarrow> RotatingLogger \<Rightarrow> RotatingLogger" where
  "RotatingLogger_SetLevel level rl = rl\<lparr>rl_baseLogger := SetLevel level (rl_baseLogger rl)\<rparr>"

definition RotatingLogger_SetOutput :: "Writer \<Rightarrow> RotatingLogger \<Rightarrow> RotatingLogger" where
  "RotatingLogger_SetOutput w rl =
     (let newZLogger = New [WithOutput w, WithLevel (zl_level (rl_baseLogger rl))]
      in rl\<lparr>rl_baseLogger := newZLogger\<rparr>)"

section \<open>The method set and the three types that implement it\<close>

text \<open>
  The interface \<open>FullLogger\<close>: seven plain, seven formatted and seven context-aware calls,
  and the two control operations. A call on a logger, made from a call stack, gives the
  logger as the call leaves it and the outcome. The rotating logger and the adapter call
  the method of the logger they hold from their own frame: the name of their method and
  the line of that call in the source.
\<close>

datatype call =
    Call_Trace string
  | Call_Debug string
  | Call_Info string
  | Call_Notice string
  | Call_Warn string
  | Call_Error string
  | Call_Fatal string
  | Call_Tracef string
  | Call_Debugf string
  | Call_Infof string
  | Call_Noticef string
  | Call_Warnf string
  | Call_Errorf string
  | Call_Fatalf string
  | Call_CtxTracef "Context option" string
  | Call_CtxDebugf "Context option" string
  | Call_CtxInfof "Context option" string
  | Call_CtxNoticef "Context option" string
  | Call_CtxWarnf "Context option" string
  | Call_CtxErrorf "Context option" string
  | Call_CtxFatalf "Context option" string
  | Call_SetLevel Level
  | Call_SetOutput Writer

fun ZLogger_call ::
  "call \<Rightarrow> ZLogger \<Rightarrow> frame list \<Rightarrow> world \<Rightarrow> ZLogger \<times> outcome" where
  "ZLogger_call (Call_Trace v) zl stk w =
     (zl, Trace v zl stk w)"
| "ZLogger_call (Call_Debug v) zl stk w =
     (zl, Debug v zl stk w)"
| "ZLogger_call (Call_Info v) zl stk w =
     (zl, Info v zl stk w)"
| "ZLogger_call (Call_Notice v) zl stk w =
     (zl, Notice v zl stk w)"
| "ZLogger_call (Call_Warn v) zl stk w =
     (zl, Warn v zl stk w)"
| "ZLogger_call (Call_Error v) zl stk w =
     (zl, Error v zl stk w)"
| "ZLogger_call (Call_Fatal v) zl stk w =
     (zl, Fatal v zl stk w)"
| "ZLogger_call (Call_Tracef v) zl stk w =
     (zl, Tracef v zl stk w)"
| "ZLogger_call (Call_Debugf v) zl stk w =
     (zl, Debugf v zl stk w)"
| "ZLogger_call (Call_Infof v) zl stk w =
     (zl, Infof v zl stk w)"
| "ZLogger_call (Call_Noticef v) zl stk w =
     (zl, Noticef v zl stk w)"
| "ZLogger_call (Call_Warnf v) zl stk w =
     (zl, Warnf v zl stk w)"
| "ZLogger_call (Call_Errorf v) zl stk w =
     (zl, Errorf v zl stk w)"
| "ZLogger_call (Call_Fatalf v) zl stk w =
     (zl, Fatalf v zl stk w)"
| "ZLogger_call (Call_CtxTracef ctx v) zl stk w =
     (zl, CtxTracef ctx v zl stk w)"
| "ZLogger_call (Call_CtxDebugf ctx v) zl stk w =
     (zl, CtxDebugf ctx v zl stk w)"
| "ZLogger_call (Call_CtxInfof ctx v) zl stk w =
     (zl, CtxInfof ctx v zl stk w)"
| "ZLogger_call (Call_CtxNoticef ctx v) zl stk w =
     (zl, CtxNoticef ctx v zl stk w)"
| "ZLogger_call (Call_CtxWarnf ctx v) zl stk w =
     (zl, CtxWarnf ctx v zl stk w)"
| "ZLogger_call (Call_CtxErrorf ctx v) zl stk w =
     (zl, CtxErrorf ctx v zl stk w)"
| "ZLogger_call (Call_CtxFatalf ctx v) zl stk w =
     (zl, CtxFatalf ctx v zl stk w)"
| "ZLogger_call (Call_SetLevel level) zl stk w = (SetLevel level zl, Returns w)"
| "ZLogger_call (Call_SetOutput out) zl stk w = (SetOutput out zl, Returns w)"

fun RotatingLogger_call ::
  "call \<Rightarrow> RotatingLogger \<Rightarrow> frame list \<Rightarrow> world \<Rightarrow> RotatingLogger \<times> outcome" where
  "RotatingLogger_call (Call_Trace v) rl stk w =
     (rl, Trace v (rl_baseLogger rl) (At ''RotatingLogger.Trace'' 193 # stk) w)"
| "RotatingLogger_call (Call_Debug v) rl stk w =
     (rl, Debug v (rl_baseLogger rl) (At ''RotatingLogger.Debug'' 194 # stk) w)"
| "RotatingLogger_call (Call_Info v) rl stk w =
     (rl, Info v (rl_baseLogger rl) (At ''RotatingLogger.Info'' 195 # stk) w)"
| "RotatingLogger_call (Call_Notice v) rl stk w =
     (rl, Notice v (rl_baseLogger rl) (At ''RotatingLogger.Notice'' 196 # stk) w)"
| "RotatingLogger_call (Call_Warn v) rl stk w =
     (rl, Warn v (rl_baseLogger rl) (At ''RotatingLogger.Warn'' 197 # stk) w)"
| "RotatingLogger_call (Call_Error v) rl stk w =
     (rl, Error v (rl_baseLogger rl) (At ''RotatingLogger.Error'' 198 # stk) w)"
| "RotatingLogger_call (Call_Fatal v) rl stk w =
     (rl, Fatal v (rl_baseLogger rl) (At ''RotatingLogger.Fatal'' 199 # stk) w)"
| "RotatingLogger_call (Call_Tracef v) rl stk w =
     (rl, Tracef v (rl_baseLogger rl) (At ''RotatingLogger.Tracef'' 202 # stk) w)"
| "RotatingLogger_call (Call_Debugf v) rl stk w =
     (rl, Debugf v (rl_baseLogger rl) (At ''RotatingLogger.Debugf'' 203 # stk) w)"
| "RotatingLogger_call (Call_Infof v) rl stk w =
     (rl, Infof v (rl_baseLogger rl) (At ''RotatingLogger.Infof'' 204 # stk) w)"
| "RotatingLogger_call (Call_Noticef v) rl stk w =
     (rl, Noticef v (rl_baseLogger rl) (At ''RotatingLogger.Noticef'' 206 # stk) w)"
| "RotatingLogger_call (Call_Warnf v) rl stk w =
     (rl, Warnf v (rl_baseLogger rl) (At ''RotatingLogger.Warnf'' 208 # stk) w)"
| "RotatingLogger_call (Call_Errorf v) rl stk w =
     (rl, Errorf v (rl_baseLogger rl) (At ''RotatingLogger.Errorf'' 209 # stk) w)"
| "RotatingLogger_call (Call_Fatalf v) rl stk w =
     (rl, Fatalf v (rl_baseLogger rl) (At ''RotatingLogger.Fatalf'' 210 # stk) w)"
| "RotatingLogger_call (Call_CtxTracef ctx v) rl stk w =
     (rl, CtxTracef ctx v (rl_baseLogger rl) (At ''RotatingLogger.CtxTracef'' 214 # stk) w)"
| "RotatingLogger_call (Call_CtxDebugf ctx v) rl stk w =
     (rl, CtxDebugf ctx v (rl_baseLogger rl) (At ''RotatingLogger.CtxDebugf'' 217 # stk) w)"
| "RotatingLogger_call (Call_CtxInfof ctx v) rl stk w =
     (rl, CtxInfof ctx v (rl_baseLogger rl) (At ''RotatingLogger.CtxInfof'' 220 # stk) w)"
| "RotatingLogger_call (Call_CtxNoticef ctx v) rl stk w =
     (rl, CtxNoticef ctx v (rl_baseLogger rl) (At ''RotatingLogger.CtxNoticef'' 223 # stk) w)"
| "RotatingLogger_call (Call_CtxWarnf ctx v) rl stk w =
     (rl, CtxWarnf ctx v (rl_baseLogger rl) (At ''RotatingLogger.CtxWarnf'' 226 # stk) w)"
| "RotatingLogger_call (Call_CtxErrorf ctx v) rl stk w =
     (rl, CtxErrorf ctx v (rl_baseLogger rl) (At ''RotatingLogger.CtxErrorf'' 229 # stk) w)"
| "RotatingLogger_call (Call_CtxFatalf ctx v) rl stk w =
     (rl, CtxFatalf ctx v (rl_baseLogger rl) (At ''RotatingLogger.CtxFatalf'' 232 # stk) w)"
| "RotatingLogger_call (Call_SetLevel level) rl stk w = (RotatingLogger_SetLevel level rl, Returns w)"
| "RotatingLogger_call (Call_SetOutput out) rl stk w = (RotatingLogger_SetOutput out rl, Returns w)"

section \<open>The interface adapter\<close>

record HlogAdapter =
  h_logger :: ZLogger

definition NewHlogAdapter :: "ZLogger \<Rightarrow> HlogAdapter" where
  "NewHlogAdapter zlogger = \<lparr>h_logger = zlogger\<rparr>"

fun HlogAdapter_call ::
  "call \<Rightarrow> HlogAdapter \<Rightarrow> frame list \<Rightarrow> world \<Rightarrow> HlogAdapter \<times> outcome" where
  "HlogAdapter_call (Call_Trace v) h stk w =
     (h, Trace v (h_logger h) (At ''HlogAdapter.Trace'' 28 # stk) w)"
| "HlogAdapter_call (Call_Debug v) h stk w =
     (h, Debug v (h_logger h) (At ''HlogAdapter.Debug'' 32 # stk) w)"
| "HlogAdapter_call (Call_Info v) h stk w =
     (h, Info v (h_logger h) (At ''HlogAdapter.Info'' 36 # stk) w)"
| "HlogAdapter_call (Call_Notice v) h stk w =
     (h, Notice v (h_logger h) (At ''HlogAdapter.Notice'' 40 # stk) w)"
| "HlogAdapter_call (Call_Warn v) h stk w =
     (h, Warn v (h_logger h) (At ''HlogAdapter.Warn'' 44 # stk) w)"
| "HlogAdapter_call (Call_Error v) h stk w =
     (h, Error v (h_logger h) (At ''HlogAdapter.Error'' 48 # stk) w)"
| "HlogAdapter_call (Call_Fatal v) h stk w =
     (h, Fatal v (h_logger h) (At ''HlogAdapter.Fatal'' 52 # stk) w)"
| "HlogAdapter_call (Call_Tracef v) h stk w =
     (h, Tracef v (h_logger h) (At ''HlogAdapter.Tracef'' 57 # stk) w)"
| "HlogAdapter_call (Call_Debugf v) h stk w =
     (h, Debugf v (h_logger h) (At ''HlogAdapter.Debugf'' 61 # stk) w)"
| "HlogAdapter_call (Call_Infof v) h stk w =
     (h, Infof v (h_logger h) (At ''HlogAdapter.Infof'' 65 # stk) w)"
| "HlogAdapter_call (Call_Noticef v) h stk w =
     (h, Noticef v (h_logger h) (At ''HlogAdapter.Noticef'' 69 # stk) w)"
| "HlogAdapter_call (Call_Warnf v) h stk w =
     (h, Warnf v (h_logger h) (At ''HlogAdapter.Warnf'' 73 # stk) w)"
| "HlogAdapter_call (Call_Errorf v) h stk w =
     (h, Errorf v (h_logger h) (At ''HlogAdapter.Errorf'' 77 # stk) w)"
| "HlogAdapter_call (Call_Fatalf v) h stk w =
     (h, Fatalf v (h_logger h) (At ''HlogAdapter.Fatalf'' 81 # stk) w)"
| "HlogAdapter_call (Call_CtxTracef ctx v) h stk w =
     (h, CtxTracef ctx v (h_logger h) (At ''HlogAdapter.CtxTracef'' 86 # stk) w)"
| "HlogAdapter_call (Call_CtxDebugf ctx v) h stk w =
     (h, CtxDebugf ctx v (h_logger h) (At ''HlogAdapter.CtxDebugf'' 90 # stk) w)"
| "HlogAdapter_call (Call_CtxInfof ctx v) h stk w =
     (h, CtxInfof ctx v (h_logger h) (At ''HlogAdapter.CtxInfof'' 94 # stk) w)"
| "HlogAdapter_call (Call_CtxNoticef ctx v) h stk w =
     (h, CtxNoticef ctx v (h_logger h) (At ''HlogAdapter.CtxNoticef'' 98 # stk) w)"
| "HlogAdapter_call (Call_CtxWarnf ctx v) h stk w =
     (h, CtxWarnf ctx v (h_logger h) (At ''HlogAdapter.CtxWarnf'' 102 # stk) w)"
| "HlogAdapter_call (Call_CtxErrorf ctx v) h stk w =
     (h, CtxErrorf ctx v (h_logger h) (At ''HlogAdapter.CtxErrorf'' 106 # stk) w)"
| "HlogAdapter_call (Call_CtxFatalf ctx v) h stk w =
     (h, CtxFatalf ctx v (h_logger h) (At ''HlogAdapter.CtxFatalf'' 110 # stk) w)"
| "HlogAdapter_call (Call_SetLevel level) h stk w = (h\<lparr>h_logger := SetLevel level (h_logger h)\<rparr>, Returns w)"
| "HlogAdapter_call (Call_SetOutput out) h stk w = (h\<lparr>h_logger := SetOutput out (h_logger h)\<rparr>, Returns w)"

text \<open>The frame from which each method of the adapter calls the wrapped logger.\<close>

fun HlogAdapter_frame :: "call \<Rightarrow> frame" where
  "HlogAdapter_frame (Call_Trace v) = At ''HlogAdapter.Trace'' 28"
| "HlogAdapter_frame (Call_Debug v) = At ''HlogAdapter.Debug'' 32"
| "HlogAdapter_frame (Call_Info v) = At ''HlogAdapter.Info'' 36"
| "HlogAdapter_frame (Call_Notice v) = At ''HlogAdapter.Notice'' 40"
| "HlogAdapter_frame (Call_Warn v) = At ''HlogAdapter.Warn'' 44"
| "HlogAdapter_frame (Call_Error v) = At ''HlogAdapter.Error'' 48"
| "HlogAdapter_frame (Call_Fatal v) = At ''HlogAdapter.Fatal'' 52"
| "HlogAdapter_frame (Call_Tracef v) = At ''HlogAdapter.Tracef'' 57"
| "HlogAdapter_frame (Call_Debugf v) = At ''HlogAdapter.Debugf'' 61"
| "HlogAdapter_frame (Call_Infof v) = At ''HlogAdapter.Infof'' 65"
| "HlogAdapter_frame (Call_Noticef v) = At ''HlogAdapter.Noticef'' 69"
| "HlogAdapter_frame (Call_Warnf v) = At ''HlogAdapter.Warnf'' 73"
| "HlogAdapter_frame (Call_Errorf v) = At ''HlogAdapter.Errorf'' 77"
| "HlogAdapter_frame (Call_Fatalf v) = At ''HlogAdapter.Fatalf'' 81"
| "HlogAdapter_frame (Call_CtxTracef ctx v) = At ''HlogAdapter.CtxTracef'' 86"
| "HlogAdapter_frame (Call_CtxDebugf ctx v) = At ''HlogAdapter.CtxDebugf'' 90"
| "HlogAdapter_frame (Call_CtxInfof ctx v) = At ''HlogAdapter.CtxInfof'' 94"
| "HlogAdapter_frame (Call_CtxNoticef ctx v) = At ''HlogAdapter.CtxNoticef'' 98"
| "HlogAdapter_frame (Call_CtxWarnf ctx v) = At ''HlogAdapter.CtxWarnf'' 102"
| "HlogAdapter_frame (Call_CtxErrorf ctx v) = At ''HlogAdapter.CtxErrorf'' 106"
| "HlogAdapter_frame (Call_CtxFatalf ctx v) = At ''HlogAdapter.CtxFatalf'' 110"
| "HlogAdapter_frame (Call_SetLevel level) = At ''HlogAdapter.SetLevel'' 115"
| "HlogAdapter_frame (Call_SetOutput out) = At ''HlogAdapter.SetOutput'' 119"

text \<open>
  A sequence of calls, each made from its own call stack, stopped by the first one that
  does not return.
\<close>

fun ZLogger_run ::
  "(call \<times> frame list) list \<Rightarrow> ZLogger \<Rightarrow> world \<Rightarrow> ZLogger \<times> outcome" where
  "ZLogger_run [] zl w = (zl, Returns w)"
| "ZLogger_run ((c, stk) # cs) zl w =
     (case ZLogger_call c zl stk w of
        (zl', Returns w') \<Rightarrow> ZLogger_run cs zl' w'
      | (zl', out) \<Rightarrow> (zl', out))"

fun HlogAdapter_run ::
  "(call \<times> frame list) list \<Rightarrow> HlogAdapter \<Rightarrow> world \<Rightarrow> HlogAdapter \<times> outcome" where
  "HlogAdapter_run [] h w = (h, Returns w)"
| "HlogAdapter_run ((c, stk) # cs) h w =
     (case HlogAdapter_call c h stk w of
        (h', Returns w') \<Rightarrow> HlogAdapter_run cs h' w'
      | (h', out) \<Rightarrow> (h', out))"

section \<open>Notions used by the properties\<close>

text \<open>The lines a call has added to a destination, and whether it has added any.\<close>

definition new_lines :: "world \<Rightarrow> outcome \<Rightarrow> Writer \<Rightarrow> LogLine list" where
  "new_lines w out d = drop (length (written w d)) (written (final out) d)"

definition produces_output :: "world \<Rightarrow> outcome \<Rightarrow> Writer \<Rightarrow> bool" where
  "produces_output w out d = (new_lines w out d \<noteq> [])"

text \<open>The three calls the facade has for each of the seven levels.\<close>

definition calls_at :: "Level \<Rightarrow> Context option \<Rightarrow> string \<Rightarrow> call list" where
  "calls_at L ctx msg =
     (if L = LevelTrace then [Call_Trace msg, Call_Tracef msg, Call_CtxTracef ctx msg]
      else if L = LevelDebug then [Call_Debug msg, Call_Debugf msg, Call_CtxDebugf ctx msg]
      else if L = LevelInfo then [Call_Info msg, Call_Infof msg, Call_CtxInfof ctx msg]
      else if L = LevelNotice then [Call_Notice msg, Call_Noticef msg, Call_CtxNoticef ctx msg]
      else if L = LevelWarn then [Call_Warn msg, Call_Warnf msg, Call_CtxWarnf ctx msg]
      else if L = LevelError then [Call_Error msg, Call_Errorf msg, Call_CtxErrorf ctx msg]
      else if L = LevelFatal then [Call_Fatal msg, Call_Fatalf msg, Call_CtxFatalf ctx msg]
      else [])"

fun is_log_call :: "call \<Rightarrow> bool" where
  "is_log_call (Call_SetLevel level) = False"
| "is_log_call (Call_SetOutput out) = False"
| "is_log_call c = True"

fun exited :: "outcome \<Rightarrow> bool" where
  "exited (Exits w) = True"
| "exited out = False"

fun panicked :: "outcome \<Rightarrow> bool" where
  "panicked (Panics e w) = True"
| "panicked out = False"

text \<open>The stored level and the engine's filter agree.\<close>

definition consistent :: "ZLogger \<Rightarrow> bool" where
  "consistent zl = (zlevel (zl_logger zl) = toZerologLevel (zl_level zl))"

definition enrichers_of :: "Option list \<Rightarrow> (zerolog_Logger \<Rightarrow> zerolog_Logger) list" where
  "enrichers_of options = cfg_loggerEnrichers (fold (\<lambda>opt c. opt c) options default_config)"

definition keeps_level :: "(zerolog_Logger \<Rightarrow> zerolog_Logger) \<Rightarrow> bool" where
  "keeps_level enricher = (\<forall>l. zlevel (enricher l) = zlevel l)"

text \<open>
  A world to run examples in: nothing written, every destination writable, no backups,
  and every span reference a span with a valid context and the sampled flag.
\<close>

definition example_span :: Span where
  "example_span =
     \<lparr>span_context =
        \<lparr>sc_traceID = [0, 0, 0, 0, 0, 0, 0, 0, 0, 0, 0, 0, 0, 0, 0, 1],
         sc_spanID = [0, 0, 0, 0, 0, 0, 0, 2], sc_traceFlags = 1\<rparr>,
      span_events = [], span_status = (Unset, [])\<rparr>"

definition example_world :: world where
  "example_world =
     \<lparr>written = (\<lambda>d. []), unwritable = (\<lambda>d. False), backups = (\<lambda>f. []),
      spans = (\<lambda>r. example_span)\<rparr>"

definition example_ctx :: Context where
  "example_ctx = \<lparr>ctx_values = [ReqIDKey \<mapsto> ''r-1''], ctx_span = Some 0\<rparr>"

text \<open>The call stack of a program that logs from line 10 of its main function.\<close>

definition example_stack :: "frame list" where
  "example_stack = [At ''main.main'' 10]"

text \<open>
  What a call at an engine level leaves behind: the world once the line, with the given
  fields beside the logger's own and the caller stamp for the stack of the message call,
  has been submitted to the logger's destination (nothing
  changes when the level is filtered out or the destination is unwritable); the fields the
  extractor finds; and the world once the span of the context has been sent the event and,
  for a failure, the status.
\<close>

definition submit ::
  "zerolog_Logger \<Rightarrow> zLevel \<Rightarrow> (string \<times> string) list \<Rightarrow> string \<Rightarrow> frame list \<Rightarrow> world
     \<Rightarrow> world" where
  "submit l lvl flds msg stk w =
     (if should l lvl \<and> \<not> unwritable w (Out (zw l))
      then w\<lparr>written := (written w)(Out (zw l) := written w (Out (zw l)) @
             [\<lparr>ln_shape = shape (zw l), ln_level = lvl, ln_message = msg,
               ln_caller = caller (zcaller l) stk,
               ln_fields = mset (zcontext l) + mset flds\<rparr>])\<rparr>
      else w)"

definition extracted :: "Context option \<Rightarrow> world \<Rightarrow> (string \<times> iface) list" where
  "extracted ctx w = (case getOtelFields ctx w of Inr (Some kvs) \<Rightarrow> kvs | _ \<Rightarrow> [])"

definition annotate :: "Context option \<Rightarrow> string \<Rightarrow> string \<Rightarrow> bool \<Rightarrow> world \<Rightarrow> world" where
  "annotate ctx msg lv failed w =
     (if IsValid (span_SpanContext (SpanFromContext ctx) w)
      then (if failed then SetStatus (SpanFromContext ctx) CodeError msg else (\<lambda>w. w))
             (AddEvent (SpanFromContext ctx) ''log'' [(''message'', msg), (''level'', lv)] w)
      else w)"

text \<open>
  Reading hexadecimal back: the value of a digit is its place among the sixteen lowercase
  digits, and two digits make a byte, the high one first.
\<close>

fun place :: "'a \<Rightarrow> 'a list \<Rightarrow> nat option" where
  "place c [] = None"
| "place c (x # xs) = (if c = x then Some 0 else map_option Suc (place c xs))"

definition hex_value :: "char \<Rightarrow> nat option" where
  "hex_value c = place c ''0123456789abcdef''"

fun hex_decode :: "string \<Rightarrow> 8 word list option" where
  "hex_decode [] = Some []"
| "hex_decode [c] = None"
| "hex_decode (c # d # cs) =
     (case (hex_value c, hex_value d, hex_decode cs) of
        (Some h, Some l, Some bs) \<Rightarrow> Some (of_nat (16 * h + l) # bs)
      | _ \<Rightarrow> None)"

text \<open>
  A world, and an outcome, with the caller location taken off every written line: what is
  left when two runs are compared apart from the caller stamp.
\<close>

definition strip_caller :: "world \<Rightarrow> world" where
  "strip_caller w = w\<lparr>written := (\<lambda>d. map (\<lambda>ln. ln\<lparr>ln_caller := None\<rparr>) (written w d))\<rparr>"

fun without_caller :: "outcome \<Rightarrow> outcome" where
  "without_caller (Returns w) = Returns (strip_caller w)"
| "without_caller (Exits w) = Exits (strip_caller w)"
| "without_caller (Panics e w) = Panics e (strip_caller w)"

section \<open>Properties\<close>

lemmas level_defs =
  LevelTrace_def LevelDebug_def LevelInfo_def LevelNotice_def LevelWarn_def LevelError_def
  LevelFatal_def DebugLevel_def InfoLevel_def WarnLevel_def ErrorLevel_def FatalLevel_def
  PanicLevel_def NoLevel_def Disabled_def TraceLevel_def

lemma toZerologLevel_range:
  "toZerologLevel L \<in> {TraceLevel, DebugLevel, InfoLevel, WarnLevel, ErrorLevel, FatalLevel}"
  by (simp add: toZerologLevel_def)

subsection \<open>The order of the range loop cannot be observed\<close>

lemma fold_Str:
  "fold (\<lambda>(k, v) e. Str k v e) kvs (Some ev) =
     Some (ev\<lparr>ev_fields := ev_fields ev + mset kvs\<rparr>)"
  by (induction kvs arbitrary: ev) (auto simp: Str_def)

lemma fold_Str_None: "fold (\<lambda>(k, v) e. Str k v e) kvs None = None"
  by (induction kvs) (auto simp: Str_def)

text \<open>
  Whatever order \<open>range\<close> visits the entries of the map in, the event it leaves is the same.
\<close>

lemma range_Str_any_order:
  "mset kvs = mset kvs' \<Longrightarrow> range_Str (Some kvs) logEvt = range_Str (Some kvs') logEvt"
  by (cases logEvt) (simp_all add: range_Str_def fold_Str fold_Str_None)

subsection \<open>What each call does, in one equation\<close>

lemma getOtelFields_total: "\<exists>r. getOtelFields ctx w = Inr r"
  by (cases ctx) (simp_all add: getOtelFields_def ctx_Value_def Let_def)

lemma range_Str_newEvent:
  "range_Str m (newEvent l lvl done) =
     (if should l lvl
      then Some \<lparr>ev_w = zw l, ev_level = lvl,
                 ev_fields = mset (zcontext l) + mset (case m of None \<Rightarrow> [] | Some kvs \<Rightarrow> kvs),
                 ev_caller = zcaller l, ev_exit = done\<rparr>
      else None)"
  by (cases m) (simp_all add: range_Str_def newEvent_def fold_Str fold_Str_None)

lemma spans_submit [simp]: "spans (submit l lvl flds msg stk w) = spans w"
  by (simp add: submit_def)

lemma Msg_range_Str:
  "Msg (range_Str m (newEvent l lvl done)) msg stk w =
     (if should l lvl \<and> done
      then Exits (submit l lvl (case m of None \<Rightarrow> [] | Some kvs \<Rightarrow> kvs) msg stk w)
      else Returns (submit l lvl (case m of None \<Rightarrow> [] | Some kvs \<Rightarrow> kvs) msg stk w))"
  by (simp add: range_Str_newEvent Msg_def Write_def line_of_def submit_def Let_def)

lemma span_SpanContext_submit [simp]:
  "span_SpanContext s (submit l lvl flds msg stk w) = span_SpanContext s w"
  by (simp add: span_SpanContext_def split: option.splits)

lemma CtxTracef_eq:
  "CtxTracef ctx msg zl stk w =
     Returns (annotate ctx msg ''trace'' False
       (submit (zl_logger zl) TraceLevel (extracted ctx w) msg
          (At ''ZLogger.CtxTracef'' 317 # stk) w))"
  using getOtelFields_total [of ctx w]
  by (auto simp: CtxTracef_def zerolog_Trace_def Msg_range_Str annotate_def extracted_def Let_def
      split: option.splits)

lemma CtxDebugf_eq:
  "CtxDebugf ctx msg zl stk w =
     Returns (annotate ctx msg ''debug'' False
       (submit (zl_logger zl) DebugLevel (extracted ctx w) msg
          (At ''ZLogger.CtxDebugf'' 339 # stk) w))"
  using getOtelFields_total [of ctx w]
  by (auto simp: CtxDebugf_def zerolog_Debug_def Msg_range_Str annotate_def extracted_def Let_def
      split: option.splits)

lemma CtxInfof_eq:
  "CtxInfof ctx msg zl stk w =
     Returns (annotate ctx msg ''info'' False
       (submit (zl_logger zl) InfoLevel (extracted ctx w) msg
          (At ''ZLogger.CtxInfof'' 361 # stk) w))"
  using getOtelFields_total [of ctx w]
  by (auto simp: CtxInfof_def zerolog_Info_def Msg_range_Str annotate_def extracted_def Let_def
      split: option.splits)

lemma CtxNoticef_eq:
  "CtxNoticef ctx msg zl stk w =
     Returns (annotate ctx msg ''notice'' False
       (submit (zl_logger zl) WarnLevel (extracted ctx w) msg
          (At ''ZLogger.CtxNoticef'' 383 # stk) w))"
  using getOtelFields_total [of ctx w]
  by (auto simp: CtxNoticef_def zerolog_Warn_def Msg_range_Str annotate_def extracted_def Let_def
      split: option.splits)

lemma CtxWarnf_eq:
  "CtxWarnf ctx msg zl stk w =
     Returns (annotate ctx msg ''warn'' False
       (submit (zl_logger zl) WarnLevel (extracted ctx w) msg
          (At ''ZLogger.CtxWarnf'' 405 # stk) w))"
  using getOtelFields_total [of ctx w]
  by (auto simp: CtxWarnf_def zerolog_Warn_def Msg_range_Str annotate_def extracted_def Let_def
      split: option.splits)

lemma CtxErrorf_eq:
  "CtxErrorf ctx msg zl stk w =
     Returns (annotate ctx msg ''error'' True
       (submit (zl_logger zl) ErrorLevel (extracted ctx w) msg
          (At ''ZLogger.CtxErrorf'' 428 # stk) w))"
  using getOtelFields_total [of ctx w]
  by (auto simp: CtxErrorf_def zerolog_Error_def Msg_range_Str annotate_def extracted_def Let_def
      split: option.splits)

lemma CtxFatalf_eq:
  "CtxFatalf ctx msg zl stk w =
     Exits (submit (zl_logger zl) FatalLevel (extracted ctx w) msg
       (At ''ZLogger.CtxFatalf'' 454 # stk) w)"
  using getOtelFields_total [of ctx w]
    Msg_range_Str [of _ "zl_logger zl" FatalLevel True msg "At ''ZLogger.CtxFatalf'' 454 # stk" w]
  by (auto simp: CtxFatalf_def zerolog_Fatal_def extracted_def Let_def submit_def
      split: option.splits)
     (auto simp: newEvent_def split: if_splits)

lemma plain_eq:
  "Trace msg zl stk w =
     Returns (submit (zl_logger zl) TraceLevel [] msg (At ''ZLogger.Trace'' 250 # stk) w)"
  "Debug msg zl stk w =
     Returns (submit (zl_logger zl) DebugLevel [] msg (At ''ZLogger.Debug'' 254 # stk) w)"
  "Info msg zl stk w =
     Returns (submit (zl_logger zl) InfoLevel [] msg (At ''ZLogger.Info'' 258 # stk) w)"
  "Notice msg zl stk w =
     Returns (submit (zl_logger zl) WarnLevel [] msg (At ''ZLogger.Notice'' 262 # stk) w)"
  "Warn msg zl stk w =
     Returns (submit (zl_logger zl) WarnLevel [] msg (At ''ZLogger.Warn'' 266 # stk) w)"
  "Error msg zl stk w =
     Returns (submit (zl_logger zl) ErrorLevel [] msg (At ''ZLogger.Error'' 270 # stk) w)"
  "Fatal msg zl stk w =
     Exits (submit (zl_logger zl) FatalLevel [] msg (At ''ZLogger.Fatal'' 274 # stk) w)"
  by (simp_all add: Trace_def Debug_def Info_def Notice_def Warn_def Error_def Fatal_def
      zerolog_Trace_def zerolog_Debug_def zerolog_Info_def zerolog_Warn_def zerolog_Error_def
      zerolog_Fatal_def Msg_def newEvent_def Write_def line_of_def submit_def Let_def)

lemma formatted_eq:
  "Tracef msg zl stk w =
     Returns (submit (zl_logger zl) TraceLevel [] msg (At ''ZLogger.Tracef'' 279 # stk) w)"
  "Debugf msg zl stk w =
     Returns (submit (zl_logger zl) DebugLevel [] msg (At ''ZLogger.Debugf'' 283 # stk) w)"
  "Infof msg zl stk w =
     Returns (submit (zl_logger zl) InfoLevel [] msg (At ''ZLogger.Infof'' 287 # stk) w)"
  "Noticef msg zl stk w =
     Returns (submit (zl_logger zl) WarnLevel [] msg (At ''ZLogger.Noticef'' 291 # stk) w)"
  "Warnf msg zl stk w =
     Returns (submit (zl_logger zl) WarnLevel [] msg (At ''ZLogger.Warnf'' 295 # stk) w)"
  "Errorf msg zl stk w =
     Returns (submit (zl_logger zl) ErrorLevel [] msg (At ''ZLogger.Errorf'' 299 # stk) w)"
  "Fatalf msg zl stk w =
     Exits (submit (zl_logger zl) FatalLevel [] msg (At ''ZLogger.Fatalf'' 303 # stk) w)"
  by (simp_all add: Tracef_def Debugf_def Infof_def Noticef_def Warnf_def Errorf_def Fatalf_def
      zerolog_Trace_def zerolog_Debug_def zerolog_Info_def zerolog_Warn_def zerolog_Error_def
      zerolog_Fatal_def Msg_def newEvent_def Write_def line_of_def submit_def Let_def)

lemmas ctx_eq =
  CtxTracef_eq CtxDebugf_eq CtxInfof_eq CtxNoticef_eq CtxWarnf_eq CtxErrorf_eq CtxFatalf_eq

lemma new_lines_submit:
  "new_lines w (Returns (submit l lvl flds msg stk w)) d =
     (if should l lvl \<and> \<not> unwritable w (Out (zw l)) \<and> d = Out (zw l)
      then [\<lparr>ln_shape = shape (zw l), ln_level = lvl, ln_message = msg,
              ln_caller = caller (zcaller l) stk,
              ln_fields = mset (zcontext l) + mset flds\<rparr>]
      else [])"
  "new_lines w (Exits (submit l lvl flds msg stk w)) d =
     (if should l lvl \<and> \<not> unwritable w (Out (zw l)) \<and> d = Out (zw l)
      then [\<lparr>ln_shape = shape (zw l), ln_level = lvl, ln_message = msg,
              ln_caller = caller (zcaller l) stk,
              ln_fields = mset (zcontext l) + mset flds\<rparr>]
      else [])"
  by (simp_all add: new_lines_def submit_def)

lemma written_annotate [simp]: "written (annotate ctx msg lv failed w) = written w"
  by (simp add: annotate_def AddEvent_def SetStatus_def split: option.splits)

lemma new_lines_annotate [simp]:
  "new_lines w (Returns (annotate ctx msg lv failed w')) d = new_lines w (Returns w') d"
  by (simp add: new_lines_def)

subsection \<open>The level mapper\<close>

text \<open>
  C2, as the source has it. The engine's Warn level is mapped back to Notice, so Notice
  comes back from the round trip through the engine as Notice, and it is Warn that comes
  back as Notice.
\<close>

theorem notice_round_trip:
  "fromZerologLevel (toZerologLevel LevelNotice) = LevelNotice \<and>
   fromZerologLevel (toZerologLevel LevelWarn) = LevelNotice"
  by (simp add: fromZerologLevel_def toZerologLevel_def level_defs)

text \<open>C2, as stated (the round trip of Notice yields Warn), fails.\<close>

theorem notice_round_trip_counterexample:
  "fromZerologLevel (toZerologLevel LevelNotice) \<noteq> LevelWarn"
  by (simp add: fromZerologLevel_def toZerologLevel_def level_defs)

text \<open>
  C4. The mapper gives every level (also one outside the seven) one of the engine's six
  levels; six of the seven levels go to their namesakes, and Notice, which has none, goes
  to the engine's Warn, the level of the next more severe facade level. The three Notice
  calls write their line, when they write one, at the engine's Warn level.
\<close>

theorem notice_collapses_to_warn:
  "toZerologLevel L \<in> {TraceLevel, DebugLevel, InfoLevel, WarnLevel, ErrorLevel, FatalLevel} \<and>
   toZerologLevel LevelTrace = TraceLevel \<and> toZerologLevel LevelDebug = DebugLevel \<and>
   toZerologLevel LevelInfo = InfoLevel \<and> toZerologLevel LevelWarn = WarnLevel \<and>
   toZerologLevel LevelError = ErrorLevel \<and> toZerologLevel LevelFatal = FatalLevel \<and>
   toZerologLevel LevelNotice = WarnLevel \<and> LevelWarn = LevelNotice + 1 \<and>
   map ln_level (new_lines w (Notice msg zl stk w) d) =
     (if should (zl_logger zl) WarnLevel \<and> \<not> unwritable w d \<and> d = Out (zw (zl_logger zl))
      then [WarnLevel] else []) \<and>
   map ln_level (new_lines w (Noticef msg zl stk w) d) =
     (if should (zl_logger zl) WarnLevel \<and> \<not> unwritable w d \<and> d = Out (zw (zl_logger zl))
      then [WarnLevel] else []) \<and>
   map ln_level (new_lines w (CtxNoticef ctx msg zl stk w) d) =
     (if should (zl_logger zl) WarnLevel \<and> \<not> unwritable w d \<and> d = Out (zw (zl_logger zl))
      then [WarnLevel] else [])"
proof -
  have table: "toZerologLevel LevelTrace = TraceLevel" "toZerologLevel LevelDebug = DebugLevel"
    "toZerologLevel LevelInfo = InfoLevel" "toZerologLevel LevelWarn = WarnLevel"
    "toZerologLevel LevelError = ErrorLevel" "toZerologLevel LevelFatal = FatalLevel"
    "toZerologLevel LevelNotice = WarnLevel" "LevelWarn = LevelNotice + 1"
    by (simp_all add: toZerologLevel_def level_defs)
  have calls: "map ln_level (new_lines w (Notice msg zl stk w) d) =
     (if should (zl_logger zl) WarnLevel \<and> \<not> unwritable w d \<and> d = Out (zw (zl_logger zl))
      then [WarnLevel] else [])"
    "map ln_level (new_lines w (Noticef msg zl stk w) d) =
     (if should (zl_logger zl) WarnLevel \<and> \<not> unwritable w d \<and> d = Out (zw (zl_logger zl))
      then [WarnLevel] else [])"
    "map ln_level (new_lines w (CtxNoticef ctx msg zl stk w) d) =
     (if should (zl_logger zl) WarnLevel \<and> \<not> unwritable w d \<and> d = Out (zw (zl_logger zl))
      then [WarnLevel] else [])"
    by (auto simp: plain_eq formatted_eq CtxNoticef_eq new_lines_submit)
  show ?thesis
    using toZerologLevel_range [of L] table calls by simp
qed

lemma produces_output_submit:
  "produces_output w (Returns (submit l lvl flds msg stk w)) d =
     (should l lvl \<and> \<not> unwritable w d \<and> d = Out (zw l))"
  "produces_output w (Exits (submit l lvl flds msg stk w)) d =
     (should l lvl \<and> \<not> unwritable w d \<and> d = Out (zw l))"
  "produces_output w (Returns (annotate ctx msg lv failed (submit l lvl flds msg stk w))) d =
     (should l lvl \<and> \<not> unwritable w d \<and> d = Out (zw l))"
  by (auto simp: produces_output_def new_lines_submit)

lemma produces_output_call:
  assumes "L \<in> set hertz_levels" "c \<in> set (calls_at L ctx msg)"
  shows "produces_output w (snd (ZLogger_call c zl stk w)) d =
           (should (zl_logger zl) (toZerologLevel L) \<and> \<not> unwritable w d \<and>
            d = Out (zw (zl_logger zl)))"
  using assms
  by (auto simp: hertz_levels_def calls_at_def plain_eq formatted_eq ctx_eq
      produces_output_submit toZerologLevel_def level_defs)

lemma should_levels:
  assumes "L \<in> set hertz_levels" "M \<in> set hertz_levels" "zlevel l = toZerologLevel M"
  shows "should l (toZerologLevel L) = (M \<le> L \<or> (L = LevelNotice \<and> M = LevelWarn))"
    and "should l (toZerologLevel L) = (toZerologLevel M \<le> toZerologLevel L)"
  using assms
  by (auto simp: hertz_levels_def should_def toZerologLevel_def level_defs)

lemma New_output_level:
  "zlevel (zl_logger (New [WithOutput d, WithLevel M])) = toZerologLevel M"
  "Out (zw (zl_logger (New [WithOutput d, WithLevel M]))) = d"
  by (simp_all add: New_def WithOutput_def WithLevel_def default_config_def build_def
      zerolog_New_def zerolog_Level_def Timestamp_def CallerWithSkipFrameCount_def
      ConsoleFormat_def JSONFormat_def Let_def)

lemma SetLevel_engine:
  "zlevel (zl_logger (SetLevel M zl)) = toZerologLevel M"
  "zw (zl_logger (SetLevel M zl)) = zw (zl_logger zl)"
  by (simp_all add: SetLevel_def zerolog_Level_def)

subsection \<open>Level filtering\<close>

text \<open>
  C1, as the source has it. On a writable destination, with the minimum level M set by
  \<open>WithLevel\<close> at construction or by \<open>SetLevel\<close> afterwards, each of the three calls of a
  level L writes a line exactly when L is at or above M, or L is Notice and M is Warn:
  Notice is written at the engine's Warn level, which a minimum of Warn lets through. That
  is the order of the engine's levels after the mapping.
\<close>

theorem level_filter:
  assumes "L \<in> set hertz_levels" and "M \<in> set hertz_levels"
    and "c \<in> set (calls_at L ctx msg)"
    and "\<not> unwritable w d" and "Out (zw (zl_logger zl)) = d"
  shows "produces_output w (snd (ZLogger_call c (New [WithOutput d, WithLevel M]) stk w)) d =
           (M \<le> L \<or> (L = LevelNotice \<and> M = LevelWarn)) \<and>
         produces_output w (snd (ZLogger_call c (SetLevel M zl) stk w)) d =
           (M \<le> L \<or> (L = LevelNotice \<and> M = LevelWarn)) \<and>
         (M \<le> L \<or> (L = LevelNotice \<and> M = LevelWarn)) =
           (toZerologLevel M \<le> toZerologLevel L)"
proof -
  have 1: "produces_output w (snd (ZLogger_call c (New [WithOutput d, WithLevel M]) stk w)) d =
           (M \<le> L \<or> (L = LevelNotice \<and> M = LevelWarn))"
    using assms(4) should_levels(1) [OF assms(1,2) New_output_level(1) [of d M]]
    by (simp add: produces_output_call [OF assms(1,3)] New_output_level(2))
  have 2: "produces_output w (snd (ZLogger_call c (SetLevel M zl) stk w)) d =
           (M \<le> L \<or> (L = LevelNotice \<and> M = LevelWarn))"
    using assms(4,5) should_levels(1) [OF assms(1,2) SetLevel_engine(1) [of M zl]]
    by (simp add: produces_output_call [OF assms(1,3)] SetLevel_engine(2))
  have 3: "(M \<le> L \<or> (L = LevelNotice \<and> M = LevelWarn)) =
           (toZerologLevel M \<le> toZerologLevel L)"
    using should_levels [OF assms(1,2) SetLevel_engine(1) [of M zl]] by simp
  show ?thesis using 1 2 3 by simp
qed

text \<open>The theorem at a Notice call under a minimum of Warn.\<close>

theorem level_filter_witness:
  "LevelNotice \<in> set hertz_levels \<and> LevelWarn \<in> set hertz_levels \<and>
   Call_Notice ''n'' \<in> set (calls_at LevelNotice None ''n'') \<and>
   \<not> unwritable example_world (Buffer 0) \<and>
   Out (zw (zl_logger (New [WithOutput (Buffer 0)]))) = Buffer 0 \<and>
   produces_output example_world
     (snd (ZLogger_call (Call_Notice ''n'') (SetLevel LevelWarn (New [WithOutput (Buffer 0)]))
        example_stack example_world)) (Buffer 0) \<and>
   LevelNotice < LevelWarn"
proof -
  have h: "LevelNotice \<in> set hertz_levels" "LevelWarn \<in> set hertz_levels"
    "Call_Notice ''n'' \<in> set (calls_at LevelNotice None ''n'')"
    "\<not> unwritable example_world (Buffer 0)"
    "Out (zw (zl_logger (New [WithOutput (Buffer 0)]))) = Buffer 0"
    by (simp_all add: hertz_levels_def calls_at_def level_defs example_world_def New_def
        WithOutput_def default_config_def build_def zerolog_New_def zerolog_Level_def
        Timestamp_def CallerWithSkipFrameCount_def ConsoleFormat_def JSONFormat_def Let_def)
  show ?thesis
    using h level_filter [OF h] by (simp add: level_defs)
qed

text \<open>
  C1, as stated, fails: Notice is below Warn, and a Notice call under a minimum of Warn
  produces output.
\<close>

theorem level_filter_counterexample:
  "LevelNotice < LevelWarn \<and>
   produces_output example_world
     (snd (ZLogger_call (Call_Notice ''n'') (New [WithOutput (Buffer 0), WithLevel LevelWarn])
        example_stack example_world)) (Buffer 0)"
  by (simp add: plain_eq produces_output_def new_lines_submit New_output_level should_def
      toZerologLevel_def level_defs example_world_def)

subsection \<open>The stored level and the engine's filter\<close>

lemma zlevel_build [simp]: "zlevel (build lw level) = toZerologLevel level"
  by (simp add: build_def zerolog_New_def zerolog_Level_def Timestamp_def
      CallerWithSkipFrameCount_def)

lemma fold_keeps_level:
  "list_all keeps_level es \<Longrightarrow> zlevel (fold (\<lambda>enricher z. enricher z) es l) = zlevel l"
  by (induction es arbitrary: l) (simp_all add: keeps_level_def)

lemma consistent_New:
  "list_all keeps_level (enrichers_of options) \<Longrightarrow> consistent (New options)"
  by (simp add: consistent_def New_def enrichers_of_def Let_def fold_keeps_level)

lemma consistent_SetLevel: "consistent (SetLevel M zl)"
  by (simp add: consistent_def SetLevel_def zerolog_Level_def)

lemma consistent_SetOutput: "consistent (SetOutput d zl)"
  by (simp add: consistent_def SetOutput_def)

lemma consistent_call: "consistent zl \<Longrightarrow> consistent (fst (ZLogger_call c zl stk w))"
  by (cases c) (simp_all add: consistent_SetLevel consistent_SetOutput)

lemma consistent_run: "consistent zl \<Longrightarrow> consistent (fst (ZLogger_run cs zl w))"
proof (induction cs arbitrary: zl w)
  case Nil
  then show ?case by simp
next
  case (Cons a cs)
  obtain c stk where a: "a = (c, stk)"
    by (cases a)
  obtain zl' out where step: "ZLogger_call c zl stk w = (zl', out)"
    by (cases "ZLogger_call c zl stk w")
  have zl': "consistent zl'"
    using consistent_call [OF Cons.prems, of c stk w] step by simp
  show ?case
  proof (cases out)
    case (Returns w')
    then show ?thesis using a step Cons.IH [OF zl'] by simp
  next
    case (Exits w')
    then show ?thesis using a step zl' by simp
  next
    case (Panics e w')
    then show ?thesis using a step zl' by simp
  qed
qed

text \<open>
  C9, as the source has it. \<open>New\<close> sets the engine's filter from the configured level
  and then applies the enrichers of the options: when these leave the filter as it is, the
  filter agrees with the stored level in every state reached from \<open>New\<close> by any sequence
  of calls. Whatever the logger, the two agree after \<open>SetLevel\<close> and after \<open>SetOutput\<close>.
\<close>

theorem level_invariant:
  assumes "list_all keeps_level (enrichers_of options)"
  shows "consistent (fst (ZLogger_run cs (New options) w)) \<and>
         consistent (SetLevel M zl) \<and> consistent (SetOutput d zl)"
  using consistent_run [OF consistent_New [OF assms]] consistent_SetLevel consistent_SetOutput
  by simp

text \<open>The theorem for an enricher that adds the time stamp, and three calls.\<close>

theorem level_invariant_witness:
  "list_all keeps_level (enrichers_of [WithLevel LevelDebug, WithZerologOptions [Timestamp]]) \<and>
   consistent (fst (ZLogger_run
      [(Call_SetOutput (Buffer 1), example_stack), (Call_Info ''x'', example_stack),
       (Call_SetLevel LevelError, example_stack)]
      (New [WithLevel LevelDebug, WithZerologOptions [Timestamp]]) example_world))"
proof -
  have h: "list_all keeps_level
             (enrichers_of [WithLevel LevelDebug, WithZerologOptions [Timestamp]])"
    by (simp add: enrichers_of_def WithLevel_def WithZerologOptions_def default_config_def
        keeps_level_def Timestamp_def)
  from level_invariant [OF h, of
      "[(Call_SetOutput (Buffer 1), example_stack), (Call_Info ''x'', example_stack),
        (Call_SetLevel LevelError, example_stack)]" example_world]
  show ?thesis using h by blast
qed

text \<open>
  C9, as stated (any options), fails: an enricher that sets the engine's level to Error
  leaves a logger whose stored level is Info.
\<close>

theorem level_invariant_counterexample:
  "\<not> consistent (New [WithZerologOptions [zerolog_Level ErrorLevel]])"
  by (simp add: consistent_def New_def WithZerologOptions_def default_config_def Let_def
      zerolog_Level_def build_def zerolog_New_def Timestamp_def CallerWithSkipFrameCount_def
      toZerologLevel_def level_defs ConsoleFormat_def JSONFormat_def)

subsection \<open>Replacing the destination\<close>

text \<open>
  \<open>ZLogger.SetOutput\<close> keeps the stored format and level, and rebuilds the engine for the
  new destination with the same level and the same kind of line.
\<close>

lemma ZLogger_SetOutput_frame:
  "zl_format (SetOutput d zl) = zl_format zl \<and> zl_level (SetOutput d zl) = zl_level zl \<and>
   zlevel (zl_logger (SetOutput d zl)) = toZerologLevel (zl_level zl) \<and>
   Out (zw (zl_logger (SetOutput d zl))) = d \<and>
   (shape (zw (zl_logger (SetOutput d zl))) = JSONLine) = (zl_format zl = JSONFormat)"
  by (simp add: SetOutput_def build_def zerolog_New_def zerolog_Level_def Timestamp_def
      CallerWithSkipFrameCount_def)

text \<open>
  On a console logger it also switches the time format of the console writer, from the one
  \<open>New\<close> builds to another.
\<close>

lemma ZLogger_SetOutput_console_time_format:
  "zw (zl_logger (New [WithOutput d])) = ConsoleWriter d RFC3339 \<and>
   zw (zl_logger (SetOutput d (New [WithOutput d0]))) = ConsoleWriter d DateTime"
  by (simp add: SetOutput_def New_def WithOutput_def default_config_def Let_def build_def
      zerolog_New_def zerolog_Level_def Timestamp_def CallerWithSkipFrameCount_def
      ConsoleFormat_def JSONFormat_def)

text \<open>
  C3 asks the same of \<open>RotatingLogger.SetOutput\<close>, which builds a new logger from the
  new destination and the old level only. Here it is run on a rotating logger made with
  the machine-readable format: the format stored afterwards is the console format, and
  the next Info call writes a console line to the new destination.
\<close>

theorem RotatingLogger_SetOutput_loses_format:
  "zl_format (rl_baseLogger (NewRotatingLoggerWithFormat
      (GetDefaultRotateConfig ''app.log'' []) JSONFormat)) = JSONFormat \<and>
   zl_format (rl_baseLogger (RotatingLogger_SetOutput (Buffer 1)
      (NewRotatingLoggerWithFormat (GetDefaultRotateConfig ''app.log'' []) JSONFormat)))
     = ConsoleFormat \<and>
   ConsoleFormat \<noteq> JSONFormat \<and>
   map ln_shape (written (final (snd (RotatingLogger_call (Call_Info ''x'')
      (RotatingLogger_SetOutput (Buffer 1)
        (NewRotatingLoggerWithFormat (GetDefaultRotateConfig ''app.log'' []) JSONFormat))
      example_stack example_world))) (Buffer 1)) = [ConsoleLine RFC3339]"
  by (simp add: NewRotatingLoggerWithFormat_def RotatingLogger_SetOutput_def New_def
      WithOutput_def WithFormat_def WithLevel_def default_config_def Let_def build_def
      zerolog_New_def zerolog_Level_def Timestamp_def CallerWithSkipFrameCount_def
      ConsoleFormat_def JSONFormat_def plain_eq submit_def should_def toZerologLevel_def
      level_defs example_world_def)

subsection \<open>The interface adapter\<close>

text \<open>
  Each method of the adapter is the same method of the wrapped logger, with the same
  arguments, called from the adapter's own frame; so is every sequence of calls.
\<close>

lemma HlogAdapter_call_delegates:
  "HlogAdapter_call c h stk w =
     (case ZLogger_call c (h_logger h) (HlogAdapter_frame c # stk) w of
        (zl', out) \<Rightarrow> (\<lparr>h_logger = zl'\<rparr>, out))"
  by (cases c) simp_all

lemma HlogAdapter_run_delegates:
  "HlogAdapter_run cs (NewHlogAdapter zl) w =
     (case ZLogger_run (map (\<lambda>(c, stk). (c, HlogAdapter_frame c # stk)) cs) zl w of
        (zl', out) \<Rightarrow> (NewHlogAdapter zl', out))"
proof (induction cs arbitrary: zl w)
  case Nil
  then show ?case by simp
next
  case (Cons a cs)
  obtain c stk where a: "a = (c, stk)"
    by (cases a)
  obtain zl' out where step: "ZLogger_call c zl (HlogAdapter_frame c # stk) w = (zl', out)"
    by (cases "ZLogger_call c zl (HlogAdapter_frame c # stk) w")
  then have hstep: "HlogAdapter_call c (NewHlogAdapter zl) stk w = (NewHlogAdapter zl', out)"
    by (simp add: HlogAdapter_call_delegates NewHlogAdapter_def)
  show ?case
    using a step hstep Cons.IH by (cases out) simp_all
qed

text \<open>The stack a call is made from shows in the caller location of its line only.\<close>

lemma unwritable_strip_caller [simp]: "unwritable (strip_caller w) = unwritable w"
  by (simp add: strip_caller_def)

lemma strip_caller_idem [simp]: "strip_caller (strip_caller w) = strip_caller w"
  by (simp add: strip_caller_def fun_eq_iff)

lemma strip_caller_submit:
  "strip_caller (submit l lvl flds msg stk w) =
     (if should l lvl \<and> \<not> unwritable w (Out (zw l))
      then (strip_caller w)\<lparr>written := (written (strip_caller w))
             (Out (zw l) := written (strip_caller w) (Out (zw l)) @
               [\<lparr>ln_shape = shape (zw l), ln_level = lvl, ln_message = msg,
                 ln_caller = None, ln_fields = mset (zcontext l) + mset flds\<rparr>])\<rparr>
      else strip_caller w)"
  by (simp add: strip_caller_def submit_def fun_eq_iff)

lemma strip_caller_annotate:
  "strip_caller (annotate ctx msg lv failed w) = annotate ctx msg lv failed (strip_caller w)"
  by (simp add: strip_caller_def annotate_def AddEvent_def SetStatus_def span_SpanContext_def
      split: option.splits)

lemma span_SpanContext_strip_caller [simp]:
  "span_SpanContext s (strip_caller w) = span_SpanContext s w"
  by (simp add: strip_caller_def span_SpanContext_def split: option.splits)

lemma getOtelFields_strip_caller [simp]:
  "getOtelFields ctx (strip_caller w) = getOtelFields ctx w"
  by (cases ctx) (simp_all add: getOtelFields_def ctx_Value_def Let_def)

lemma extracted_strip_caller [simp]: "extracted ctx (strip_caller w) = extracted ctx w"
  by (simp add: extracted_def)

lemma ZLogger_call_any_stack:
  "fst (ZLogger_call c zl stk w) = fst (ZLogger_call c zl stk' w') \<and>
   without_caller (snd (ZLogger_call c zl stk w)) =
   without_caller (snd (ZLogger_call c zl stk' (strip_caller w)))"
  by (cases c)
     (simp_all add: plain_eq formatted_eq ctx_eq strip_caller_annotate strip_caller_submit)

lemma ZLogger_run_any_stack:
  "map fst cs = map fst cs' \<Longrightarrow> strip_caller w = strip_caller w' \<Longrightarrow>
   fst (ZLogger_run cs zl w) = fst (ZLogger_run cs' zl w') \<and>
   without_caller (snd (ZLogger_run cs zl w)) = without_caller (snd (ZLogger_run cs' zl w'))"
proof (induction cs arbitrary: cs' zl w w')
  case Nil
  then show ?case by simp
next
  case (Cons a cs)
  obtain c stk where a: "a = (c, stk)"
    by (cases a)
  from Cons.prems(1) a obtain stk' ds where cs': "cs' = (c, stk') # ds" "map fst cs = map fst ds"
    by (cases cs') auto
  obtain zl1 out where step: "ZLogger_call c zl stk w = (zl1, out)"
    by (cases "ZLogger_call c zl stk w")
  obtain zl2 out' where step': "ZLogger_call c zl stk' w' = (zl2, out')"
    by (cases "ZLogger_call c zl stk' w'")
  have same: "zl1 = zl2" "without_caller out = without_caller out'"
    using ZLogger_call_any_stack [of c zl stk w stk w] ZLogger_call_any_stack [of c zl stk' w' stk w]
      step step' Cons.prems(2)
    by simp_all
  show ?case
  proof (cases out)
    case (Returns v)
    with same(2) obtain v' where out': "out' = Returns v'" "strip_caller v = strip_caller v'"
      by (cases out') simp_all
    show ?thesis
      using a cs' step step' Returns out' same(1) Cons.IH [OF cs'(2) out'(2), of zl1]
      by simp
  next
    case (Exits v)
    with same(2) obtain v' where out': "out' = Exits v'" "strip_caller v = strip_caller v'"
      by (cases out') simp_all
    show ?thesis
      using a cs' step step' Exits out' same(1) by simp
  next
    case (Panics e v)
    with same(2) obtain v' where out': "out' = Panics e v'" "strip_caller v = strip_caller v'"
      by (cases out') simp_all
    show ?thesis
      using a cs' step step' Panics out' same(1) by simp
  qed
qed

text \<open>
  C8, as the source has it. Every call of the method set on the adapter leaves the adapter
  wrapping the logger as the same call on the wrapped logger leaves it, and has the outcome
  of that call apart from the caller location on the written line; so has every sequence
  of calls. The adapter is the wrapped logger and nothing else.
\<close>

theorem adapter_pure_delegation:
  "fst (HlogAdapter_call c h stk w) = \<lparr>h_logger = fst (ZLogger_call c (h_logger h) stk w)\<rparr> \<and>
   without_caller (snd (HlogAdapter_call c h stk w)) =
     without_caller (snd (ZLogger_call c (h_logger h) stk w)) \<and>
   fst (HlogAdapter_run cs (NewHlogAdapter zl) w) = NewHlogAdapter (fst (ZLogger_run cs zl w)) \<and>
   without_caller (snd (HlogAdapter_run cs (NewHlogAdapter zl) w)) =
     without_caller (snd (ZLogger_run cs zl w)) \<and>
   h_logger (NewHlogAdapter zl) = zl \<and> NewHlogAdapter (h_logger h) = h"
proof -
  have call: "fst (HlogAdapter_call c h stk w) =
                \<lparr>h_logger = fst (ZLogger_call c (h_logger h) stk w)\<rparr>"
    "without_caller (snd (HlogAdapter_call c h stk w)) =
       without_caller (snd (ZLogger_call c (h_logger h) stk w))"
    using ZLogger_call_any_stack [of c "h_logger h" "HlogAdapter_frame c # stk" w stk w]
      ZLogger_call_any_stack [of c "h_logger h" stk w stk w]
    by (simp_all add: HlogAdapter_call_delegates case_prod_beta)
  have fsts: "map fst (map (\<lambda>(c, stk). (c, HlogAdapter_frame c # stk)) cs) = map fst cs"
    by (induction cs) auto
  have run: "fst (HlogAdapter_run cs (NewHlogAdapter zl) w) =
               NewHlogAdapter (fst (ZLogger_run cs zl w))"
    "without_caller (snd (HlogAdapter_run cs (NewHlogAdapter zl) w)) =
       without_caller (snd (ZLogger_run cs zl w))"
    using ZLogger_run_any_stack [OF fsts refl, of zl w]
    by (simp_all add: HlogAdapter_run_delegates case_prod_beta)
  show ?thesis
    using call run by (simp add: NewHlogAdapter_def)
qed

text \<open>
  C8, as stated (exactly the same behaviour), fails: the same Info call, made from the same
  place, writes a line that names that place when made on the logger, and the adapter's
  own method when made on the adapter.
\<close>

theorem adapter_pure_delegation_counterexample:
  "map ln_caller (written (final (snd (ZLogger_call (Call_Info ''x'')
      (New [WithOutput (Buffer 0)]) example_stack example_world))) (Buffer 0))
     = [Some (At ''main.main'' 10)] \<and>
   map ln_caller (written (final (snd (HlogAdapter_call (Call_Info ''x'')
      (NewHlogAdapter (New [WithOutput (Buffer 0)])) example_stack example_world))) (Buffer 0))
     = [Some (At ''HlogAdapter.Info'' 36)]"
  by (simp add: NewHlogAdapter_def plain_eq submit_def should_def caller_def New_def
      WithOutput_def default_config_def Let_def build_def zerolog_New_def zerolog_Level_def
      Timestamp_def CallerWithSkipFrameCount_def ConsoleFormat_def JSONFormat_def
      toZerologLevel_def level_defs example_world_def example_stack_def)
subsection \<open>The context field extractor\<close>

lemma hexdigit_mem: "n < 16 \<Longrightarrow> hexdigit n \<in> set ''0123456789abcdef''"
  unfolding hexdigit_def by (rule nth_mem) simp

lemma hex_byte_chars: "set (hex_byte b) \<subseteq> set ''0123456789abcdef''"
proof -
  have "unat b < 2 ^ LENGTH(8)" by (rule unsigned_less)
  then have "unat b < 256" by simp
  then have "unat b div 16 < 16" by simp
  then show ?thesis
    using hexdigit_mem [of "unat b div 16"] hexdigit_mem [of "unat b mod 16"]
    by (simp add: hex_byte_def)
qed

lemma hex_digits_read_back:
  "list_all (\<lambda>n. hex_value (hexdigit n) = Some n) [0..<16]"
  by code_simp

lemma hex_value_hexdigit: "n < 16 \<Longrightarrow> hex_value (hexdigit n) = Some n"
  using hex_digits_read_back by (simp add: list_all_iff)

lemma hex_decode_hex_byte: "hex_decode (hex_byte b @ cs) = map_option ((#) b) (hex_decode cs)"
proof -
  have "unat b < 2 ^ LENGTH(8)" by (rule unsigned_less)
  then have lt: "unat b div 16 < 16" "unat b mod 16 < 16" by simp_all
  have "(of_nat (16 * (unat b div 16) + unat b mod 16) :: 8 word) = b"
    by simp
  then show ?thesis
    using lt by (cases "hex_decode cs") (simp_all add: hex_byte_def hex_value_hexdigit)
qed

lemma hex_decode_ID_String: "hex_decode (ID_String bs) = Some bs"
  by (induction bs) (simp_all add: ID_String_def hex_decode_hex_byte)

lemma getOtelFields_Some:
  "getOtelFields (Some c) w = Inr (Some (
      (case ctx_values c ReqIDKey of None \<Rightarrow> [] | Some v \<Rightarrow> [(LogIDKey, v)]) @
      (if IsValid (span_SpanContext (SpanFromContext (Some c)) w)
       then [(''trace_id'', ID_String (sc_traceID (span_SpanContext (SpanFromContext (Some c)) w))),
             (''span_id'', ID_String (sc_spanID (span_SpanContext (SpanFromContext (Some c)) w)))] @
            (if sc_traceFlags (span_SpanContext (SpanFromContext (Some c)) w) \<noteq> 0
             then [(''trace_flags'',
                    hex_byte (sc_traceFlags (span_SpanContext (SpanFromContext (Some c)) w)))]
             else [])
       else [])))"
  by (simp add: getOtelFields_def ctx_Value_def Let_def IsValid_def LogIDKey_def
      split: option.splits)

lemma distinct_extracted: "distinct (map fst (extracted ctx w))"
proof (cases ctx)
  case None
  then show ?thesis by (simp add: extracted_def getOtelFields_def)
next
  case (Some c)
  then show ?thesis
    by (cases "ctx_values c ReqIDKey")
       (auto simp: extracted_def getOtelFields_Some LogIDKey_def)
qed

text \<open>
  C5. The extractor returns for every context, nil included, and never panics. For a
  context that is not nil it returns exactly: the value set under the request-id key of
  the context, under the key \<open>request_id\<close>; then, when and only when the span of the context
  has a valid span context, the trace id and the span id in hexadecimal, and the trace
  flags when they are not zero, as two characters out of \<open>0123456789abcdef\<close>. Nothing
  else, and no key twice: with no request id and no valid span the mapping is empty. The
  two characters are the hexadecimal encoding of the flags byte, and the ids are encoded
  two characters a byte: reading the digits back gives the byte, and the bytes of the id.
\<close>

theorem getOtelFields_contract:
  "getOtelFields None w = Inr None \<and>
   getOtelFields (Some c) w = Inr (Some (
      (case ctx_values c ReqIDKey of None \<Rightarrow> [] | Some v \<Rightarrow> [(LogIDKey, v)]) @
      (if IsValid (span_SpanContext (SpanFromContext (Some c)) w)
       then [(''trace_id'', ID_String (sc_traceID (span_SpanContext (SpanFromContext (Some c)) w))),
             (''span_id'', ID_String (sc_spanID (span_SpanContext (SpanFromContext (Some c)) w)))] @
            (if sc_traceFlags (span_SpanContext (SpanFromContext (Some c)) w) \<noteq> 0
             then [(''trace_flags'',
                    hex_byte (sc_traceFlags (span_SpanContext (SpanFromContext (Some c)) w)))]
             else [])
       else []))) \<and>
   distinct (map fst (extracted ctx w)) \<and>
   LogIDKey = ''request_id'' \<and> ReqIDKey = ''X-Request-ID'' \<and>
   length (hex_byte b) = 2 \<and> set (hex_byte b) \<subseteq> set ''0123456789abcdef'' \<and>
   hex_decode (hex_byte b) = Some [b] \<and> hex_decode (ID_String bs) = Some bs \<and>
   length (ID_String bs) = 2 * length bs \<and>
   (\<exists>r. getOtelFields ctx w = Inr r)"
proof -
  have len: "length (ID_String bs) = 2 * length bs"
    by (induction bs) (simp_all add: ID_String_def hex_byte_def)
  show ?thesis
    using getOtelFields_Some [of c w] distinct_extracted [of ctx w] hex_byte_chars [of b]
      getOtelFields_total [of ctx w] hex_decode_hex_byte [of b "[]"] hex_decode_ID_String [of bs]
      len
    by (simp add: getOtelFields_def LogIDKey_def ReqIDKey_def hex_byte_def)
qed

lemma extracted_None [simp]: "extracted None w = []"
  by (simp add: extracted_def getOtelFields_def)

lemma annotate_None [simp]: "annotate None msg lv failed w = w"
  by (simp add: annotate_def SpanFromContext_def span_SpanContext_def IsValid_def ID_IsValid_def
      list_ex_iff)

text \<open>
  C10. The extractor returns the nil map for the nil context. Each context-aware call
  with the nil context submits the message at its level, from its own frame, with no field
  beyond the logger's own, and the line is written when the level passes the filter and
  the destination accepts it; apart from the caller location on the line it does what its
  formatted sibling does. None of them panics.
\<close>

theorem nil_context_is_harmless:
  "getOtelFields None w = Inr None \<and>
   without_caller (CtxTracef None msg zl stk w) = without_caller (Tracef msg zl stk w) \<and>
   without_caller (CtxDebugf None msg zl stk w) = without_caller (Debugf msg zl stk w) \<and>
   without_caller (CtxInfof None msg zl stk w) = without_caller (Infof msg zl stk w) \<and>
   without_caller (CtxNoticef None msg zl stk w) = without_caller (Noticef msg zl stk w) \<and>
   without_caller (CtxWarnf None msg zl stk w) = without_caller (Warnf msg zl stk w) \<and>
   without_caller (CtxErrorf None msg zl stk w) = without_caller (Errorf msg zl stk w) \<and>
   without_caller (CtxFatalf None msg zl stk w) = without_caller (Fatalf msg zl stk w) \<and>
   CtxTracef None msg zl stk w =
     Returns (submit (zl_logger zl) TraceLevel [] msg (At ''ZLogger.CtxTracef'' 317 # stk) w) \<and>
   CtxDebugf None msg zl stk w =
     Returns (submit (zl_logger zl) DebugLevel [] msg (At ''ZLogger.CtxDebugf'' 339 # stk) w) \<and>
   CtxInfof None msg zl stk w =
     Returns (submit (zl_logger zl) InfoLevel [] msg (At ''ZLogger.CtxInfof'' 361 # stk) w) \<and>
   CtxNoticef None msg zl stk w =
     Returns (submit (zl_logger zl) WarnLevel [] msg (At ''ZLogger.CtxNoticef'' 383 # stk) w) \<and>
   CtxWarnf None msg zl stk w =
     Returns (submit (zl_logger zl) WarnLevel [] msg (At ''ZLogger.CtxWarnf'' 405 # stk) w) \<and>
   CtxErrorf None msg zl stk w =
     Returns (submit (zl_logger zl) ErrorLevel [] msg (At ''ZLogger.CtxErrorf'' 428 # stk) w) \<and>
   CtxFatalf None msg zl stk w =
     Exits (submit (zl_logger zl) FatalLevel [] msg (At ''ZLogger.CtxFatalf'' 454 # stk) w) \<and>
   new_lines w (Returns (submit l lvl [] msg stk w)) (Out (zw l)) =
     (if should l lvl \<and> \<not> unwritable w (Out (zw l))
      then [\<lparr>ln_shape = shape (zw l), ln_level = lvl, ln_message = msg,
              ln_caller = caller (zcaller l) stk, ln_fields = mset (zcontext l)\<rparr>]
      else [])"
  by (simp add: ctx_eq formatted_eq new_lines_submit strip_caller_submit,
      simp add: getOtelFields_def)

text \<open>
  With the skip count that \<open>New\<close> and \<open>SetOutput\<close> set, the line names the caller of the
  method, and the call with the nil context is its formatted sibling altogether.
\<close>

lemma nil_context_is_formatted_call:
  assumes "zcaller (zl_logger zl) = Some 3"
  shows "CtxTracef None msg zl stk w = Tracef msg zl stk w"
    and "CtxDebugf None msg zl stk w = Debugf msg zl stk w"
    and "CtxInfof None msg zl stk w = Infof msg zl stk w"
    and "CtxNoticef None msg zl stk w = Noticef msg zl stk w"
    and "CtxWarnf None msg zl stk w = Warnf msg zl stk w"
    and "CtxErrorf None msg zl stk w = Errorf msg zl stk w"
    and "CtxFatalf None msg zl stk w = Fatalf msg zl stk w"
  using assms by (simp_all add: ctx_eq formatted_eq submit_def caller_def)

subsection \<open>Failures: rotation and ordinary calls\<close>

lemma not_panicked_ZLogger_call: "\<not> panicked (snd (ZLogger_call k zl stk w))"
  by (cases k) (simp_all add: plain_eq formatted_eq ctx_eq)

lemma written_submit_unwritable:
  "unwritable w (Out (zw l)) \<Longrightarrow> submit l lvl flds msg stk w = w"
  by (simp add: submit_def)

lemma written_ZLogger_call_unwritable:
  "unwritable w (Out (zw (zl_logger zl))) \<Longrightarrow>
   written (final (snd (ZLogger_call k zl stk w))) = written w"
  by (cases k) (simp_all add: plain_eq formatted_eq ctx_eq written_submit_unwritable)

lemma written_RotatingLogger_call_unwritable:
  "is_log_call k \<Longrightarrow> unwritable w (Out (zw (zl_logger (rl_baseLogger rl)))) \<Longrightarrow>
   written (final (snd (RotatingLogger_call k rl stk w))) = written w"
  by (cases k) (simp_all add: plain_eq formatted_eq ctx_eq written_submit_unwritable)

lemma not_panicked_RotatingLogger_call: "\<not> panicked (snd (RotatingLogger_call k rl stk w))"
  by (cases k) (simp_all add: plain_eq formatted_eq ctx_eq)

lemma NewRotatingLogger_writer:
  "rl_writer (NewRotatingLogger c) = Lumberjack c"
  "Out (zw (zl_logger (rl_baseLogger (NewRotatingLogger c)))) = Lumberjack c"
  "rl_writer (NewRotatingLoggerWithFormat c f) = Lumberjack c"
  "Out (zw (zl_logger (rl_baseLogger (NewRotatingLoggerWithFormat c f)))) = Lumberjack c"
  by (simp_all add: NewRotatingLogger_def NewRotatingLoggerWithFormat_def New_def
      WithOutput_def WithFormat_def default_config_def Let_def build_def zerolog_New_def
      zerolog_Level_def Timestamp_def CallerWithSkipFrameCount_def)

text \<open>
  C7. On a rotating logger whose file cannot be written, \<open>Rotate\<close> returns the rotating
  writer's error and changes nothing, while a log call writes nothing and does not panic:
  the write error stays inside the engine. No call of the method set, on any of the three
  logger types, in any world, panics.
\<close>

theorem only_Rotate_fails_visibly:
  assumes "rl = NewRotatingLogger c \<or> rl = NewRotatingLoggerWithFormat c f"
    and "unwritable w (Lumberjack c)" and "is_log_call k"
  shows "Rotate rl w = (Some (RotateError (Filename c)), w) \<and>
         \<not> panicked (snd (RotatingLogger_call k rl stk w)) \<and>
         written (final (snd (RotatingLogger_call k rl stk w))) = written w \<and>
         \<not> panicked (snd (RotatingLogger_call k' rl' stk' w')) \<and>
         \<not> panicked (snd (ZLogger_call k' zl stk' w')) \<and>
         \<not> panicked (snd (HlogAdapter_call k' h stk' w'))"
proof -
  have wr: "rl_writer rl = Lumberjack c"
    and out: "Out (zw (zl_logger (rl_baseLogger rl))) = Lumberjack c"
    using assms(1) NewRotatingLogger_writer by auto
  have rot: "Rotate rl w = (Some (RotateError (Filename c)), w)"
    using wr assms(2) by (simp add: Rotate_def lumberjack_Rotate_def)
  have log: "written (final (snd (RotatingLogger_call k rl stk w))) = written w"
    using written_RotatingLogger_call_unwritable [OF assms(3), of w rl stk] assms(2) out
    by simp
  have ad: "\<not> panicked (snd (HlogAdapter_call k' h stk' w'))"
    by (cases k') (simp_all add: plain_eq formatted_eq ctx_eq)
  show ?thesis
    using rot log ad not_panicked_RotatingLogger_call not_panicked_ZLogger_call by simp
qed

text \<open>The theorem for an Error call on the default rotation configuration.\<close>

theorem only_Rotate_fails_visibly_witness:
  "unwritable (example_world\<lparr>unwritable := (\<lambda>d. True)\<rparr>)
     (Lumberjack (GetDefaultRotateConfig ''app.log'' [])) \<and>
   is_log_call (Call_Error ''e'') \<and>
   fst (Rotate (NewRotatingLogger (GetDefaultRotateConfig ''app.log'' []))
     (example_world\<lparr>unwritable := (\<lambda>d. True)\<rparr>)) = Some (RotateError ''app.log'') \<and>
   \<not> panicked (snd (RotatingLogger_call (Call_Error ''e'')
       (NewRotatingLogger (GetDefaultRotateConfig ''app.log'' [])) example_stack
       (example_world\<lparr>unwritable := (\<lambda>d. True)\<rparr>)))"
proof -
  have h: "unwritable (example_world\<lparr>unwritable := (\<lambda>d. True)\<rparr>)
             (Lumberjack (GetDefaultRotateConfig ''app.log'' []))"
    "is_log_call (Call_Error ''e'')"
    by simp_all
  have r: "NewRotatingLogger (GetDefaultRotateConfig ''app.log'' []) =
             NewRotatingLogger (GetDefaultRotateConfig ''app.log'' []) \<or>
           NewRotatingLogger (GetDefaultRotateConfig ''app.log'' []) =
             NewRotatingLoggerWithFormat (GetDefaultRotateConfig ''app.log'' []) f" for f
    by simp
  from only_Rotate_fails_visibly [OF r h]
  show ?thesis using h by (simp add: GetDefaultRotateConfig_def)
qed

subsection \<open>Context-aware calls and the span\<close>

lemma example_valid:
  "IsValid (span_SpanContext (SpanFromContext (Some example_ctx)) example_world)"
  by (simp add: IsValid_def ID_IsValid_def span_SpanContext_def SpanFromContext_def
      example_ctx_def example_world_def example_span_def)

text \<open>
  The six context-aware calls below Fatal return, having attached every extracted field to
  the line they submit and having sent the valid span of the context one event with the
  message and the name of the level; \<open>CtxErrorf\<close> alone also sends the failed status.
\<close>

lemma returning_ctx_calls:
  assumes "IsValid (span_SpanContext (SpanFromContext ctx) w)"
  shows "CtxTracef ctx msg zl stk w = Returns
           (AddEvent (SpanFromContext ctx) ''log'' [(''message'', msg), (''level'', ''trace'')]
             (submit (zl_logger zl) TraceLevel (extracted ctx w) msg
               (At ''ZLogger.CtxTracef'' 317 # stk) w))"
    and "CtxDebugf ctx msg zl stk w = Returns
           (AddEvent (SpanFromContext ctx) ''log'' [(''message'', msg), (''level'', ''debug'')]
             (submit (zl_logger zl) DebugLevel (extracted ctx w) msg
               (At ''ZLogger.CtxDebugf'' 339 # stk) w))"
    and "CtxInfof ctx msg zl stk w = Returns
           (AddEvent (SpanFromContext ctx) ''log'' [(''message'', msg), (''level'', ''info'')]
             (submit (zl_logger zl) InfoLevel (extracted ctx w) msg
               (At ''ZLogger.CtxInfof'' 361 # stk) w))"
    and "CtxNoticef ctx msg zl stk w = Returns
           (AddEvent (SpanFromContext ctx) ''log'' [(''message'', msg), (''level'', ''notice'')]
             (submit (zl_logger zl) WarnLevel (extracted ctx w) msg
               (At ''ZLogger.CtxNoticef'' 383 # stk) w))"
    and "CtxWarnf ctx msg zl stk w = Returns
           (AddEvent (SpanFromContext ctx) ''log'' [(''message'', msg), (''level'', ''warn'')]
             (submit (zl_logger zl) WarnLevel (extracted ctx w) msg
               (At ''ZLogger.CtxWarnf'' 405 # stk) w))"
    and "CtxErrorf ctx msg zl stk w = Returns
           (SetStatus (SpanFromContext ctx) CodeError msg
             (AddEvent (SpanFromContext ctx) ''log'' [(''message'', msg), (''level'', ''error'')]
               (submit (zl_logger zl) ErrorLevel (extracted ctx w) msg
               (At ''ZLogger.CtxErrorf'' 428 # stk) w)))"
  using assms by (simp_all add: ctx_eq annotate_def)

text \<open>
  C6 asks the event and the failed status of \<open>CtxFatalf\<close> too, and the source has the two
  calls on the span after the message call. The Fatal event of the engine ends the process
  in its message call, so they are never reached. Here \<open>CtxFatalf\<close> is run on a context
  with a valid span: the process exits with the line written, the span has no event and
  its status is unset; \<open>CtxErrorf\<close> on the same input leaves the event and the status.
\<close>

theorem CtxFatalf_never_reaches_span:
  "exited (CtxFatalf (Some example_ctx) ''boom'' (New [WithOutput (Buffer 0)]) example_stack
        example_world) \<and>
   map ln_message (written (final
     (CtxFatalf (Some example_ctx) ''boom'' (New [WithOutput (Buffer 0)]) example_stack
        example_world))
     (Buffer 0)) = [''boom''] \<and>
   span_events (spans (final
     (CtxFatalf (Some example_ctx) ''boom'' (New [WithOutput (Buffer 0)]) example_stack
        example_world)) 0) = [] \<and>
   span_status (spans (final
     (CtxFatalf (Some example_ctx) ''boom'' (New [WithOutput (Buffer 0)]) example_stack
        example_world)) 0)
     = (Unset, []) \<and>
   span_events (spans (final
     (CtxErrorf (Some example_ctx) ''boom'' (New [WithOutput (Buffer 0)]) example_stack
        example_world)) 0)
     = [(''log'', [(''message'', ''boom''), (''level'', ''error'')])] \<and>
   span_status (spans (final
     (CtxErrorf (Some example_ctx) ''boom'' (New [WithOutput (Buffer 0)]) example_stack
        example_world)) 0)
     = (CodeError, ''boom'')"
  using example_valid
  by (simp add: ctx_eq annotate_def AddEvent_def SetStatus_def SpanFromContext_def)
     (simp add: submit_def should_def New_def WithOutput_def default_config_def Let_def
        build_def zerolog_New_def zerolog_Level_def Timestamp_def CallerWithSkipFrameCount_def
        ConsoleFormat_def JSONFormat_def toZerologLevel_def level_defs example_world_def
        example_ctx_def example_span_def)

end
